theory Spec2Isabelle
  imports Complex_Main "HOL-Library.Sublist"
begin

section \<open>Speech recognition engines (mcp_server/speech_engines.py)\<close>

subsection \<open>Data model\<close>

text \<open>
  The closed enumeration \<^verbatim>\<open>RecognitionBackend\<close> and the string value of each member.
\<close>

datatype RecognitionBackend = ELEVENLABS | GOOGLE | WHISPER | OPENAI_REALTIME

fun backend_value :: "RecognitionBackend \<Rightarrow> string" where
  "backend_value ELEVENLABS = ''elevenlabs''"
| "backend_value GOOGLE = ''google''"
| "backend_value WHISPER = ''whisper''"
| "backend_value OPENAI_REALTIME = ''openai''"

text \<open>
  Exceptions are values. An exception carries its class, the text that \<^verbatim>\<open>str(e)\<close>
  gives, and the exception that was being handled when it was raised
  (Python's \<^verbatim>\<open>__context__\<close>, set only by a \<^verbatim>\<open>raise\<close> inside an \<^verbatim>\<open>except\<close> block).
  The classes named are \<^verbatim>\<open>Exception\<close> and the direct subclasses of it that the two
  modules name in an \<^verbatim>\<open>except\<close> clause or raise themselves; \<open>Subclass name base\<close> is
  any other class, by its name and the class it derives from. An \<^verbatim>\<open>except C\<close> clause
  catches the instances of \<open>C\<close>, which are the exceptions of class \<open>C\<close> and of every
  class derived from it. Every \<open>exn\<close> is an instance of \<^verbatim>\<open>Exception\<close>: signals that
  derive from \<^verbatim>\<open>BaseException\<close> only (interrupts, interpreter exit) are not values of
  this type.
\<close>

datatype exn_class =
  Exception | ValueError | AttributeError | NameError | ImportError
  | WaitTimeoutError | UnknownValueError | RequestError | Subclass string exn_class

fun isinstance :: "exn_class \<Rightarrow> exn_class \<Rightarrow> bool" where
  "isinstance (Subclass name base) k = (Subclass name base = k \<or> isinstance base k)"
| "isinstance c k = (c = k \<or> k = Exception)"

datatype exn = Exn (exn_class: exn_class) (message: string) (exn_context: "exn option")

datatype json =
  JNull | JBool bool | JInt int | JNum real | JStr string
  | JList "json list" | JObj "(string \<times> json) list"

text \<open>The dataclass \<^verbatim>\<open>RecognitionResult\<close>; the two floats are reals that are only passed on.\<close>

record RecognitionResult =
  "text" :: string
  confidence :: real
  backend :: RecognitionBackend
  processing_time :: real
  metadata :: "(string \<times> json) list option"

text \<open>
  An engine instance, as far as \<^verbatim>\<open>MultiEngine\<close> and the tools look at it: the name of its
  class, the \<^verbatim>\<open>available\<close> flag its constructor sets, the energy threshold of its
  recognizer, and its \<^verbatim>\<open>recognize\<close> coroutine. A call of \<^verbatim>\<open>recognize\<close> talks to a
  service outside the program, so it reads and changes a world \<open>'w\<close> and either raises
  (\<open>Inl\<close>) or returns a result (\<open>Inr\<close>); two calls on the same audio may differ.
\<close>

record ('a, 'w) engine =
  class_name :: string
  available :: bool
  energy_threshold :: real
  recognize :: "'a \<Rightarrow> 'w \<Rightarrow> (exn + RecognitionResult) \<times> 'w"

text \<open>
  \<^verbatim>\<open>MultiEngine\<close>: the dict \<^verbatim>\<open>engines\<close> in insertion order (which is the order
  \<^verbatim>\<open>items()\<close> iterates in), and the two configured backends, \<open>None\<close> when unset.
\<close>

record ('a, 'w) MultiEngine =
  engines :: "(RecognitionBackend \<times> ('a, 'w) engine) list"
  primary :: "RecognitionBackend option"
  fallback :: "RecognitionBackend option"

subsection \<open>\<^verbatim>\<open>MultiEngine.recognize_with_fallback\<close>\<close>

text \<open>
  Every attempt writes one log record: \<^verbatim>\<open>logger.debug\<close> "... engine b succeeded" or
  \<^verbatim>\<open>logger.warning\<close> "... engine b failed: e", with the wording of its phase
  (Primary, Fallback, Secondary). The model returns these records beside the outcome.
\<close>

datatype phase = Primary | Fallback | Secondary

datatype log_entry =
  Succeeded phase RecognitionBackend
  | Failed phase RecognitionBackend exn

fun entry_backend :: "log_entry \<Rightarrow> RecognitionBackend" where
  "entry_backend (Succeeded ph b) = b"
| "entry_backend (Failed ph b ex) = b"

fun is_Failed :: "log_entry \<Rightarrow> bool" where
  "is_Failed (Succeeded ph b) = False"
| "is_Failed (Failed ph b ex) = True"

text \<open>
  One \<^verbatim>\<open>try: result = await engine.recognize(audio_data); return result\<close>
  \<^verbatim>\<open>except Exception as e: logger.warning(...)\<close> block. \<open>Some result\<close> is the
  \<^verbatim>\<open>return\<close>; \<open>None\<close> means that control falls out of the block.
\<close>

definition attempt ::
  "phase \<Rightarrow> RecognitionBackend \<Rightarrow> ('a, 'w) engine \<Rightarrow> 'a \<Rightarrow> 'w
    \<Rightarrow> RecognitionResult option \<times> log_entry list \<times> 'w" where
  "attempt ph b e audio w =
     (case recognize e audio w of
        (Inr result, w') \<Rightarrow> (Some result, [Succeeded ph b], w')
      | (Inl ex, w') \<Rightarrow> (None, [Failed ph b ex], w'))"

text \<open>\<^verbatim>\<open>if self.primary and self.primary in self.engines: ...\<close> (an enum member is truthy).\<close>

definition try_primary ::
  "('a, 'w) MultiEngine \<Rightarrow> 'a \<Rightarrow> 'w \<Rightarrow> RecognitionResult option \<times> log_entry list \<times> 'w" where
  "try_primary self audio w =
     (case primary self of
        None \<Rightarrow> (None, [], w)
      | Some p \<Rightarrow>
          (case map_of (engines self) p of
             None \<Rightarrow> (None, [], w)
           | Some e \<Rightarrow> attempt Primary p e audio w))"

text \<open>\<^verbatim>\<open>if self.fallback and self.fallback in self.engines: ...\<close>\<close>

definition try_fallback ::
  "('a, 'w) MultiEngine \<Rightarrow> 'a \<Rightarrow> 'w \<Rightarrow> RecognitionResult option \<times> log_entry list \<times> 'w" where
  "try_fallback self audio w =
     (case fallback self of
        None \<Rightarrow> (None, [], w)
      | Some f \<Rightarrow>
          (case map_of (engines self) f of
             None \<Rightarrow> (None, [], w)
           | Some e \<Rightarrow> attempt Fallback f e audio w))"

text \<open>
  \<^verbatim>\<open>for backend, engine in self.engines.items():\<close>
  \<^verbatim>\<open>if backend not in [self.primary, self.fallback]: ...\<close>; the first argument is that
  two-element list.
\<close>

fun try_remaining ::
  "RecognitionBackend option list \<Rightarrow> (RecognitionBackend \<times> ('a, 'w) engine) list \<Rightarrow> 'a \<Rightarrow> 'w
    \<Rightarrow> RecognitionResult option \<times> log_entry list \<times> 'w" where
  "try_remaining tried [] audio w = (None, [], w)"
| "try_remaining tried ((b, e) # items) audio w =
     (if Some b \<notin> set tried then
        (case attempt Secondary b e audio w of
           (Some result, lg, w') \<Rightarrow> (Some result, lg, w')
         | (None, lg, w') \<Rightarrow>
             (case try_remaining tried items audio w' of
                (r, lg', w'') \<Rightarrow> (r, lg @ lg', w'')))
      else try_remaining tried items audio w)"

definition all_failed :: exn where
  "all_failed = Exn Exception ''All recognition engines failed'' None"

definition recognize_with_fallback ::
  "('a, 'w) MultiEngine \<Rightarrow> 'a \<Rightarrow> 'w \<Rightarrow> (exn + RecognitionResult) \<times> log_entry list \<times> 'w" where
  "recognize_with_fallback self audio w =
     (case try_primary self audio w of
        (Some result, lg1, w1) \<Rightarrow> (Inr result, lg1, w1)
      | (None, lg1, w1) \<Rightarrow>
          (case try_fallback self audio w1 of
             (Some result, lg2, w2) \<Rightarrow> (Inr result, lg1 @ lg2, w2)
           | (None, lg2, w2) \<Rightarrow>
               (case try_remaining [primary self, fallback self] (engines self) audio w2 of
                  (Some result, lg3, w3) \<Rightarrow> (Inr result, lg1 @ lg2 @ lg3, w3)
                | (None, lg3, w3) \<Rightarrow> (Inl all_failed, lg1 @ lg2 @ lg3, w3))))"

subsection \<open>The attempt order in the words of the specification\<close>

text \<open>
  The candidates in order: the primary backend if it is set and a key of the mapping, the
  fallback backend if it is set and a key of the mapping, then the items of the mapping
  whose key is neither the primary nor the fallback.
\<close>

definition configured ::
  "phase \<Rightarrow> RecognitionBackend option \<Rightarrow> (RecognitionBackend \<times> ('a, 'w) engine) list
    \<Rightarrow> (phase \<times> RecognitionBackend \<times> ('a, 'w) engine) list" where
  "configured ph sel engs =
     (case sel of
        None \<Rightarrow> []
      | Some b \<Rightarrow> (case map_of engs b of None \<Rightarrow> [] | Some e \<Rightarrow> [(ph, b, e)]))"

definition candidates ::
  "('a, 'w) MultiEngine \<Rightarrow> (phase \<times> RecognitionBackend \<times> ('a, 'w) engine) list" where
  "candidates self =
     configured Primary (primary self) (engines self)
     @ configured Fallback (fallback self) (engines self)
     @ map (\<lambda>(b, e). (Secondary, b, e))
         (filter (\<lambda>(b, e). Some b \<noteq> primary self \<and> Some b \<noteq> fallback self) (engines self))"

definition attempt_order :: "('a, 'w) MultiEngine \<Rightarrow> RecognitionBackend list" where
  "attempt_order self =
     (case primary self of
        None \<Rightarrow> []
      | Some p \<Rightarrow> if p \<in> fst ` set (engines self) then [p] else [])
     @ (case fallback self of
          None \<Rightarrow> []
        | Some f \<Rightarrow> if f \<in> fst ` set (engines self) then [f] else [])
     @ filter (\<lambda>b. Some b \<noteq> primary self \<and> Some b \<noteq> fallback self) (map fst (engines self))"

text \<open>
  Trying a list of candidates one after the other, each in the world the one before left:
  \<open>first_success\<close> stops at the first call that returns, \<open>failures\<close> is \<open>Some\<close> exactly
  when every call raises.
\<close>

fun first_success ::
  "(phase \<times> RecognitionBackend \<times> ('a, 'w) engine) list \<Rightarrow> 'a \<Rightarrow> 'w
    \<Rightarrow> RecognitionResult option \<times> log_entry list \<times> 'w" where
  "first_success [] audio w = (None, [], w)"
| "first_success ((ph, b, e) # cs) audio w =
     (case recognize e audio w of
        (Inr result, w') \<Rightarrow> (Some result, [Succeeded ph b], w')
      | (Inl ex, w') \<Rightarrow>
          (case first_success cs audio w' of
             (r, lg, w'') \<Rightarrow> (r, Failed ph b ex # lg, w'')))"

fun failures ::
  "(phase \<times> RecognitionBackend \<times> ('a, 'w) engine) list \<Rightarrow> 'a \<Rightarrow> 'w
    \<Rightarrow> (log_entry list \<times> 'w) option" where
  "failures [] audio w = Some ([], w)"
| "failures ((ph, b, e) # cs) audio w =
     (case recognize e audio w of
        (Inr result, w') \<Rightarrow> None
      | (Inl ex, w') \<Rightarrow>
          (case failures cs audio w' of
             None \<Rightarrow> None
           | Some (lg, w'') \<Rightarrow> Some (Failed ph b ex # lg, w'')))"

definition finish ::
  "RecognitionResult option \<times> log_entry list \<times> 'w
    \<Rightarrow> (exn + RecognitionResult) \<times> log_entry list \<times> 'w" where
  "finish x =
     (case x of
        (Some result, lg, w) \<Rightarrow> (Inr result, lg, w)
      | (None, lg, w) \<Rightarrow> (Inl all_failed, lg, w))"

subsection \<open>Strings, dicts and the enumeration lookup\<close>

text \<open>
  A character is a code point below 256. \<^verbatim>\<open>str.lower()\<close> on such text: the letters A to Z
  and the capital letters of the range from U+00C0 to U+00DE (all of it but the
  multiplication sign U+00D7) move up by 32, every other character is kept.
\<close>

definition upper_case :: string where
  "upper_case =
     ''ABCDEFGHIJKLMNOPQRSTUVWXYZ''
     @ [CHR 0xC0, CHR 0xC1, CHR 0xC2, CHR 0xC3, CHR 0xC4, CHR 0xC5, CHR 0xC6, CHR 0xC7,
        CHR 0xC8, CHR 0xC9, CHR 0xCA, CHR 0xCB, CHR 0xCC, CHR 0xCD, CHR 0xCE, CHR 0xCF,
        CHR 0xD0, CHR 0xD1, CHR 0xD2, CHR 0xD3, CHR 0xD4, CHR 0xD5, CHR 0xD6,
        CHR 0xD8, CHR 0xD9, CHR 0xDA, CHR 0xDB, CHR 0xDC, CHR 0xDD, CHR 0xDE]"

definition lower_case :: string where
  "lower_case =
     ''abcdefghijklmnopqrstuvwxyz''
     @ [CHR 0xE0, CHR 0xE1, CHR 0xE2, CHR 0xE3, CHR 0xE4, CHR 0xE5, CHR 0xE6, CHR 0xE7,
        CHR 0xE8, CHR 0xE9, CHR 0xEA, CHR 0xEB, CHR 0xEC, CHR 0xED, CHR 0xEE, CHR 0xEF,
        CHR 0xF0, CHR 0xF1, CHR 0xF2, CHR 0xF3, CHR 0xF4, CHR 0xF5, CHR 0xF6,
        CHR 0xF8, CHR 0xF9, CHR 0xFA, CHR 0xFB, CHR 0xFC, CHR 0xFD, CHR 0xFE]"

definition lower_char :: "char \<Rightarrow> char" where
  "lower_char c =
     (case map_of (zip upper_case lower_case) c of
        Some d \<Rightarrow> d
      | None \<Rightarrow> c)"

definition lower :: "string \<Rightarrow> string" where
  "lower s = map lower_char s"

definition members :: "RecognitionBackend list" where
  "members = [ELEVENLABS, GOOGLE, WHISPER, OPENAI_REALTIME]"

definition apostrophe :: string where
  "apostrophe = [CHR 0x27]"

text \<open>\<^verbatim>\<open>RecognitionBackend(s)\<close>: the member with value \<open>s\<close>, or \<^verbatim>\<open>ValueError\<close>.\<close>

definition RecognitionBackend_call :: "string \<Rightarrow> exn + RecognitionBackend" where
  "RecognitionBackend_call s =
     (case find (\<lambda>b. backend_value b = s) members of
        Some b \<Rightarrow> Inr b
      | None \<Rightarrow>
          Inl (Exn ValueError (apostrophe @ s @ apostrophe @ '' is not a valid RecognitionBackend'')
                 None))"

text \<open>
  \<^verbatim>\<open>RecognitionBackend(x) if x in [e.value for e in RecognitionBackend] else None\<close>
\<close>

definition backend_or_none :: "string \<Rightarrow> exn + RecognitionBackend option" where
  "backend_or_none x =
     (if x \<in> set (map backend_value members) then
        (case RecognitionBackend_call x of Inl ex \<Rightarrow> Inl ex | Inr b \<Rightarrow> Inr (Some b))
      else Inr None)"

text \<open>The truth value of an \<^verbatim>\<open>Optional[str]\<close>: neither \<^verbatim>\<open>None\<close> nor empty.\<close>

fun truthy :: "string option \<Rightarrow> bool" where
  "truthy None = False"
| "truthy (Some s) = (s \<noteq> [])"

text \<open>\<^verbatim>\<open>d[k] = v\<close> on a dict kept in insertion order.\<close>

definition dict_set :: "'k \<Rightarrow> 'v \<Rightarrow> ('k \<times> 'v) list \<Rightarrow> ('k \<times> 'v) list" where
  "dict_set k v d =
     (if k \<in> fst ` set d then map (\<lambda>(k', v'). if k' = k then (k, v) else (k', v')) d
      else d @ [(k, v)])"

subsection \<open>The process environment\<close>

text \<open>
  What the program reads from outside itself. The environment variables; whether the
  server module could import the speech components (\<^verbatim>\<open>SPEECH_COMPONENTS_AVAILABLE\<close>, and
  with it whether the name \<^verbatim>\<open>sr\<close> is bound in the server module: the import of
  \<^verbatim>\<open>speech_recognition as sr\<close> is the last one of the guarded block); and one oracle for
  each stretch of calls into a library or service, which takes the world and gives the
  exception raised or the value obtained, and the world after:
  \<^item> \<open>SpeechEngine_base\<close>: \<^verbatim>\<open>SpeechEngine.__init__\<close> (recognizer, microphone, the two
    threshold settings read with \<^verbatim>\<open>int\<close> and \<^verbatim>\<open>float\<close>), giving the energy threshold set;
  \<^item> \<open>import_elevenlabs\<close>: the imports and the client construction in the \<^verbatim>\<open>try\<close> of
    \<^verbatim>\<open>ElevenLabsEngine.__init__\<close>; \<open>import_whisper\<close>: \<^verbatim>\<open>import whisper\<close>;
    \<open>whisper_load_model\<close>: \<^verbatim>\<open>whisper.load_model(name)\<close>;
  \<^item> \<open>elevenlabs_stt\<close>: audio conversion, temporary file and clock in
    \<^verbatim>\<open>ElevenLabsEngine.recognize\<close>, giving the processing time;
    \<open>recognize_google\<close>, \<open>recognize_whisper\<close>: the recognizer call and the clock, giving
    the text and the processing time;
  \<^item> \<open>calibrate\<close>: \<^verbatim>\<open>SpeechEngine.calibrate_microphone\<close>, giving the new energy threshold
    of the engine's recognizer;
  \<^item> \<open>probe_microphone\<close>: the \<^verbatim>\<open>try\<close> body of \<^verbatim>\<open>MultiEngine.test_microphone\<close>, giving the
    device index and the energy threshold;
  \<^item> \<open>ambient_threshold\<close>: microphone and 0.1 s noise adjustment in \<^verbatim>\<open>calibrate_audio\<close>;
  \<^item> \<open>capture\<close>: microphone, 0.5 s noise adjustment and \<^verbatim>\<open>listen\<close> in \<^verbatim>\<open>transcribe_once\<close>;
  \<^item> \<open>list_microphone_names\<close>, \<open>default_device_index\<close>
    (\<^verbatim>\<open>sr.Microphone().device_index\<close>);
  \<^item> \<open>now_isoformat\<close>, and \<open>format_1f\<close> for the text of a float under \<^verbatim>\<open>:.1f\<close>.
\<close>

record ('a, 'w) env =
  getenv :: "string \<Rightarrow> string option"
  SPEECH_COMPONENTS_AVAILABLE :: bool
  SpeechEngine_base :: "exn + real"
  import_elevenlabs :: "exn option"
  import_whisper :: "exn option"
  whisper_load_model :: "string \<Rightarrow> exn option"
  elevenlabs_stt :: "'a \<Rightarrow> 'w \<Rightarrow> (exn + real) \<times> 'w"
  recognize_google :: "'a \<Rightarrow> 'w \<Rightarrow> (exn + string \<times> real) \<times> 'w"
  recognize_whisper :: "string \<Rightarrow> 'a \<Rightarrow> 'w \<Rightarrow> (exn + string \<times> real) \<times> 'w"
  calibrate :: "real \<Rightarrow> 'w \<Rightarrow> (exn + real) \<times> 'w"
  probe_microphone :: "real \<Rightarrow> 'w \<Rightarrow> (exn + json \<times> real) \<times> 'w"
  ambient_threshold :: "'w \<Rightarrow> (exn + real) \<times> 'w"
  capture :: "int \<Rightarrow> 'w \<Rightarrow> (exn + 'a) \<times> 'w"
  list_microphone_names :: "'w \<Rightarrow> (exn + string list) \<times> 'w"
  default_device_index :: "'w \<Rightarrow> (exn + nat option) \<times> 'w"
  now_isoformat :: "'w \<Rightarrow> string"
  format_1f :: "real \<Rightarrow> string"

text \<open>\<^verbatim>\<open>os.getenv(name, default)\<close>\<close>

definition getenv_default :: "('a, 'w) env \<Rightarrow> string \<Rightarrow> string \<Rightarrow> string" where
  "getenv_default env name dflt = (case getenv env name of None \<Rightarrow> dflt | Some v \<Rightarrow> v)"

subsection \<open>The engine classes\<close>

definition ElevenLabsEngine_recognize ::
  "('a, 'w) env \<Rightarrow> bool \<Rightarrow> 'a \<Rightarrow> 'w \<Rightarrow> (exn + RecognitionResult) \<times> 'w" where
  "ElevenLabsEngine_recognize env avail audio w =
     (if \<not> avail then (Inl (Exn Exception ''ElevenLabs not available'' None), w)
      else
        (case elevenlabs_stt env audio w of
           (Inl ex, w') \<Rightarrow> (Inl ex, w')
         | (Inr t, w') \<Rightarrow>
             (Inr \<lparr>text = ''ElevenLabs transcription placeholder'', confidence = 95 / 100,
                   backend = ELEVENLABS, processing_time = t,
                   metadata = Some [(''transcript'', JStr ''ElevenLabs transcription placeholder''),
                                    (''confidence'', JNum (95 / 100)), (''duration'', JNum 0)]\<rparr>,
              w')))"

definition GoogleEngine_recognize ::
  "('a, 'w) env \<Rightarrow> 'a \<Rightarrow> 'w \<Rightarrow> (exn + RecognitionResult) \<times> 'w" where
  "GoogleEngine_recognize env audio w =
     (case recognize_google env audio w of
        (Inr (txt, t), w') \<Rightarrow>
          (Inr \<lparr>text = txt, confidence = 90 / 100, backend = GOOGLE, processing_time = t,
                metadata = Some [(''service'', JStr ''google_speech_recognition'')]\<rparr>, w')
      | (Inl ex, w') \<Rightarrow>
          (if isinstance (exn_class ex) UnknownValueError then
             (Inl (Exn Exception ''Could not understand audio'' (Some ex)), w')
           else if isinstance (exn_class ex) RequestError then
             (Inl (Exn Exception (''Google API error: '' @ message ex) (Some ex)), w')
           else (Inl ex, w')))"

definition WhisperEngine_recognize ::
  "('a, 'w) env \<Rightarrow> bool \<Rightarrow> string \<Rightarrow> 'a \<Rightarrow> 'w \<Rightarrow> (exn + RecognitionResult) \<times> 'w" where
  "WhisperEngine_recognize env avail model_name audio w =
     (if \<not> avail then (Inl (Exn Exception ''Whisper not available'' None), w)
      else
        (case recognize_whisper env model_name audio w of
           (Inl ex, w') \<Rightarrow> (Inl ex, w')
         | (Inr (txt, t), w') \<Rightarrow>
             (Inr \<lparr>text = txt, confidence = 85 / 100, backend = WHISPER, processing_time = t,
                   metadata = Some [(''model'', JStr model_name)]\<rparr>, w')))"

text \<open>
  \<^verbatim>\<open>ElevenLabsEngine.__init__\<close>: the base constructor is outside the \<^verbatim>\<open>try\<close>; inside it
  \<^verbatim>\<open>ImportError\<close> and every other \<^verbatim>\<open>Exception\<close> leave the engine unavailable.
\<close>

definition ElevenLabsEngine_init :: "('a, 'w) env \<Rightarrow> exn + ('a, 'w) engine" where
  "ElevenLabsEngine_init env =
     (case SpeechEngine_base env of
        Inl ex \<Rightarrow> Inl ex
      | Inr thr \<Rightarrow>
          Inr \<lparr>class_name = ''ElevenLabsEngine'', available = (import_elevenlabs env = None),
                energy_threshold = thr,
                recognize = ElevenLabsEngine_recognize env (import_elevenlabs env = None)\<rparr>)"

definition GoogleEngine_init :: "('a, 'w) env \<Rightarrow> exn + ('a, 'w) engine" where
  "GoogleEngine_init env =
     (case SpeechEngine_base env of
        Inl ex \<Rightarrow> Inl ex
      | Inr thr \<Rightarrow>
          Inr \<lparr>class_name = ''GoogleEngine'', available = True, energy_threshold = thr,
                recognize = GoogleEngine_recognize env\<rparr>)"

text \<open>
  \<^verbatim>\<open>WhisperEngine.__init__(config)\<close>. Inside the \<^verbatim>\<open>try\<close>: \<^verbatim>\<open>import whisper\<close>, then
  \<^verbatim>\<open>config.get('model_size', 'base')\<close> on the parameter \<^verbatim>\<open>config\<close> (an
  \<^verbatim>\<open>AttributeError\<close> when it is \<^verbatim>\<open>None\<close>), then \<^verbatim>\<open>whisper.load_model\<close>. Only
  \<^verbatim>\<open>ImportError\<close> is caught.
\<close>

definition WhisperEngine_try ::
  "('a, 'w) env \<Rightarrow> (string \<times> string) list option \<Rightarrow> exn + string" where
  "WhisperEngine_try env config =
     (case import_whisper env of
        Some ex \<Rightarrow> Inl ex
      | None \<Rightarrow>
          (case config of
             None \<Rightarrow>
               Inl (Exn AttributeError
                      (apostrophe @ ''NoneType'' @ apostrophe @ '' object has no attribute ''
                        @ apostrophe @ ''get'' @ apostrophe) None)
           | Some cfg \<Rightarrow>
               (let model_name = (case map_of cfg ''model_size'' of None \<Rightarrow> ''base'' | Some n \<Rightarrow> n)
                in case whisper_load_model env model_name of
                     Some ex \<Rightarrow> Inl ex
                   | None \<Rightarrow> Inr model_name)))"

definition WhisperEngine_init ::
  "('a, 'w) env \<Rightarrow> (string \<times> string) list option \<Rightarrow> exn + ('a, 'w) engine" where
  "WhisperEngine_init env config =
     (case SpeechEngine_base env of
        Inl ex \<Rightarrow> Inl ex
      | Inr thr \<Rightarrow>
          (case WhisperEngine_try env config of
             Inr model_name \<Rightarrow>
               Inr \<lparr>class_name = ''WhisperEngine'', available = True, energy_threshold = thr,
                     recognize = WhisperEngine_recognize env True model_name\<rparr>
           | Inl ex \<Rightarrow>
               (if isinstance (exn_class ex) ImportError then
                  Inr \<lparr>class_name = ''WhisperEngine'', available = False, energy_threshold = thr,
                        recognize = WhisperEngine_recognize env False []\<rparr>
                else Inl ex)))"

subsection \<open>\<^verbatim>\<open>MultiEngine.__init__\<close>\<close>

text \<open>
  The first half registers the engines and removes the unavailable ones; an exception of
  a constructor leaves \<^verbatim>\<open>__init__\<close>.
\<close>

definition register_engines ::
  "('a, 'w) env \<Rightarrow> exn + (RecognitionBackend \<times> ('a, 'w) engine) list" where
  "register_engines env =
     (case (if truthy (getenv env ''ELEVENLABS_API_KEY'') then
              (case ElevenLabsEngine_init env of
                 Inl ex \<Rightarrow> Inl ex
               | Inr e \<Rightarrow> Inr (dict_set ELEVENLABS e []))
            else Inr []) of
        Inl ex \<Rightarrow> Inl ex
      | Inr engines1 \<Rightarrow>
          (case GoogleEngine_init env of
             Inl ex \<Rightarrow> Inl ex
           | Inr g \<Rightarrow>
               (case WhisperEngine_init env None of
                  Inl ex \<Rightarrow> Inl ex
                | Inr wh \<Rightarrow>
                    Inr (filter (\<lambda>(k, v). available v)
                           (dict_set WHISPER wh (dict_set GOOGLE g engines1))))))"

definition MultiEngine_init :: "('a, 'w) env \<Rightarrow> exn + ('a, 'w) MultiEngine" where
  "MultiEngine_init env =
     (case register_engines env of
        Inl ex \<Rightarrow> Inl ex
      | Inr engs \<Rightarrow>
          (let primary_backend = lower (getenv_default env ''VOICE_BACKEND'' ''elevenlabs'');
               fallback_backend = lower (getenv_default env ''VOICE_FALLBACK'' ''google'')
           in case backend_or_none primary_backend of
                Inl ex \<Rightarrow> Inl ex
              | Inr p \<Rightarrow>
                  (case backend_or_none fallback_backend of
                     Inl ex \<Rightarrow> Inl ex
                   | Inr f \<Rightarrow> Inr \<lparr>engines = engs, primary = p, fallback = f\<rparr>)))"

text \<open>
  \<^verbatim>\<open>MultiEngine.calibrate_microphone\<close>: the first engine of the mapping, if there is one,
  adjusts its own recognizer, which changes that engine's energy threshold.
\<close>

definition calibrate_microphone ::
  "('a, 'w) env \<Rightarrow> ('a, 'w) MultiEngine \<Rightarrow> real \<Rightarrow> 'w
    \<Rightarrow> exn option \<times> ('a, 'w) MultiEngine \<times> 'w" where
  "calibrate_microphone env self duration w =
     (case engines self of
        [] \<Rightarrow> (None, self, w)
      | (b, first_engine) # rest \<Rightarrow>
          (case calibrate env duration w of
             (Inl ex, w') \<Rightarrow> (Some ex, self, w')
           | (Inr thr, w') \<Rightarrow>
               (None, self\<lparr>engines := (b, first_engine\<lparr>energy_threshold := thr\<rparr>) # rest\<rparr>, w')))"

text \<open>\<^verbatim>\<open>MultiEngine.list_available_microphones\<close>, the loop from position \<open>index\<close> on.\<close>

fun microphones_from ::
  "('a, 'w) env \<Rightarrow> nat \<Rightarrow> string list \<Rightarrow> 'w \<Rightarrow> (exn + (string \<times> json) list list) \<times> 'w" where
  "microphones_from env index [] w = (Inr [], w)"
| "microphones_from env index (name # names) w =
     (case default_device_index env w of
        (Inl ex, w') \<Rightarrow> (Inl ex, w')
      | (Inr d, w') \<Rightarrow>
          (case microphones_from env (Suc index) names w' of
             (Inl ex, w'') \<Rightarrow> (Inl ex, w'')
           | (Inr mics, w'') \<Rightarrow>
               (Inr ([(''index'', JInt (int index)), (''name'', JStr name),
                      (''default'', JBool (Some index = d))] # mics), w'')))"

definition list_available_microphones ::
  "('a, 'w) env \<Rightarrow> 'w \<Rightarrow> (exn + (string \<times> json) list list) \<times> 'w" where
  "list_available_microphones env w =
     (case list_microphone_names env w of
        (Inl ex, w') \<Rightarrow> (Inl ex, w')
      | (Inr names, w') \<Rightarrow> microphones_from env 0 names w')"

text \<open>\<^verbatim>\<open>MultiEngine.test_microphone\<close>: it catches every exception itself.\<close>

definition MultiEngine_test_microphone ::
  "('a, 'w) env \<Rightarrow> real \<Rightarrow> 'w \<Rightarrow> (string \<times> json) list \<times> 'w" where
  "MultiEngine_test_microphone env duration w =
     (case probe_microphone env duration w of
        (Inr (device, thr), w') \<Rightarrow>
          ([(''success'', JBool True), (''microphone_index'', device),
            (''energy_threshold'', JNum thr), (''audio_captured'', JBool True),
            (''audio_duration'', JNum duration)], w')
      | (Inl ex, w') \<Rightarrow>
          ([(''success'', JBool False), (''error'', JStr (message ex)),
            (''microphone_index'', JStr ''unknown'')], w'))"

section \<open>The tool server (mcp_server/voice_server.py)\<close>

subsection \<open>State\<close>

text \<open>
  The module-level \<^verbatim>\<open>_speech_engine\<close> (\<open>None\<close> until the first successful
  construction), the world, and a trace of the backends whose \<^verbatim>\<open>recognize\<close> has been
  called, latest last. A tool result is a dict in the order its literal is written.
\<close>

record ('a, 'w) state =
  speech_engine :: "('a, 'w) MultiEngine option"
  world :: 'w
  calls :: "RecognitionBackend list"

type_synonym payload = "(string \<times> json) list"

definition get_speech_engine ::
  "('a, 'w) env \<Rightarrow> ('a, 'w) state \<Rightarrow> (exn + ('a, 'w) MultiEngine) \<times> ('a, 'w) state" where
  "get_speech_engine env st =
     (case speech_engine st of
        Some m \<Rightarrow> (Inr m, st)
      | None \<Rightarrow>
          (if \<not> SPEECH_COMPONENTS_AVAILABLE env then
             (Inl (Exn Exception ''Speech components not available'' None), st)
           else
             (case MultiEngine_init env of
                Inl ex \<Rightarrow> (Inl ex, st)
              | Inr m \<Rightarrow> (Inr m, st\<lparr>speech_engine := Some m\<rparr>))))"

text \<open>
  Evaluating the name \<^verbatim>\<open>sr\<close> in the server module: a \<^verbatim>\<open>NameError\<close> when the guarded
  import block did not bind it. (An interpreter that evaluates annotations when a function
  is defined does not get that far: the annotation of \<^verbatim>\<open>get_speech_engine\<close> names
  \<^verbatim>\<open>MultiEngine\<close>, which the same block binds, so there the module loads only with the
  speech components present.)
\<close>

definition sr_unbound :: "('a, 'w) env \<Rightarrow> exn option \<Rightarrow> exn option" where
  "sr_unbound env handled =
     (if SPEECH_COMPONENTS_AVAILABLE env then None
      else Some (Exn NameError
                   (''name '' @ apostrophe @ ''sr'' @ apostrophe @ '' is not defined'') handled))"

subsection \<open>\<^verbatim>\<open>ping\<close>\<close>

definition ping :: "json \<Rightarrow> payload" where
  "ping p = [(''ok'', JBool True), (''echo'', p), (''server'', JStr ''Claude Voice Commands'')]"

subsection \<open>\<^verbatim>\<open>test_microphone\<close>\<close>

definition test_microphone_body ::
  "('a, 'w) env \<Rightarrow> real \<Rightarrow> ('a, 'w) state \<Rightarrow> (exn + payload) \<times> ('a, 'w) state" where
  "test_microphone_body env duration st =
     (case get_speech_engine env st of
        (Inl ex, st1) \<Rightarrow> (Inl ex, st1)
      | (Inr engine, st1) \<Rightarrow>
          (case MultiEngine_test_microphone env duration (world st1) of
             (result, w') \<Rightarrow> (Inr result, st1\<lparr>world := w'\<rparr>)))"

definition test_microphone ::
  "('a, 'w) env \<Rightarrow> real \<Rightarrow> ('a, 'w) state \<Rightarrow> (exn + payload) \<times> ('a, 'w) state" where
  "test_microphone env duration st =
     (case test_microphone_body env duration st of
        (Inr result, st') \<Rightarrow> (Inr result, st')
      | (Inl ex, st') \<Rightarrow>
          (Inr [(''success'', JBool False),
                (''error'', JStr (''Microphone test failed: '' @ message ex)),
                (''microphone_index'', JStr ''unknown'')], st'))"

subsection \<open>\<^verbatim>\<open>transcribe_once\<close>\<close>

text \<open>The text of a list of plain strings, as an f-string prints it.\<close>

fun comma_separated :: "string list \<Rightarrow> string" where
  "comma_separated [] = []"
| "comma_separated [s] = s"
| "comma_separated (s # t # ss) = s @ '', '' @ comma_separated (t # ss)"

definition list_text :: "string list \<Rightarrow> string" where
  "list_text ss = ''['' @ comma_separated (map (\<lambda>s. apostrophe @ s @ apostrophe) ss) @ '']''"

text \<open>
  The \<^verbatim>\<open>if backend: ... else: ...\<close> statement. In the first branch the inner \<^verbatim>\<open>try\<close>
  encloses both the enumeration lookup and the call of \<^verbatim>\<open>recognize\<close>, so an instance
  of \<^verbatim>\<open>ValueError\<close> from either is replaced by the "Invalid backend" exception.
\<close>

definition recognize_selected ::
  "('a, 'w) MultiEngine \<Rightarrow> string option \<Rightarrow> 'a \<Rightarrow> ('a, 'w) state
    \<Rightarrow> (exn + RecognitionResult) \<times> ('a, 'w) state" where
  "recognize_selected engine backend_name audio st =
     (if truthy backend_name then
        (case (case RecognitionBackend_call (lower (the backend_name)) of
                 Inl ex \<Rightarrow> (Inl ex, st)
               | Inr backend_enum \<Rightarrow>
                   (case map_of (engines engine) backend_enum of
                      Some e \<Rightarrow>
                        (case recognize e audio (world st) of
                           (r, w') \<Rightarrow>
                             (r, st\<lparr>world := w', calls := calls st @ [backend_enum]\<rparr>))
                    | None \<Rightarrow>
                        (Inl (Exn Exception
                                (''Backend '' @ apostrophe @ the backend_name @ apostrophe
                                  @ '' not available'') None), st))) of
           (Inr result, st') \<Rightarrow> (Inr result, st')
         | (Inl ex, st') \<Rightarrow>
             (if isinstance (exn_class ex) ValueError then
                (Inl (Exn Exception
                        (''Invalid backend: '' @ the backend_name @ ''. Available: ''
                          @ list_text (map (\<lambda>(b, e). backend_value b) (engines engine)))
                        (Some ex)), st')
              else (Inl ex, st')))
      else
        (case recognize_with_fallback engine audio (world st) of
           (r, lg, w') \<Rightarrow> (r, st\<lparr>world := w', calls := calls st @ map entry_backend lg\<rparr>)))"

definition transcribe_once_body ::
  "('a, 'w) env \<Rightarrow> int \<Rightarrow> string option \<Rightarrow> ('a, 'w) state
    \<Rightarrow> (exn + payload) \<times> ('a, 'w) state" where
  "transcribe_once_body env duration backend_name st =
     (case get_speech_engine env st of
        (Inl ex, st1) \<Rightarrow> (Inl ex, st1)
      | (Inr engine, st1) \<Rightarrow>
          (case sr_unbound env None of
             Some ex \<Rightarrow> (Inl ex, st1)
           | None \<Rightarrow>
               (case capture env duration (world st1) of
                  (Inl ex, w1) \<Rightarrow> (Inl ex, st1\<lparr>world := w1\<rparr>)
                | (Inr audio, w1) \<Rightarrow>
                    (case recognize_selected engine backend_name audio (st1\<lparr>world := w1\<rparr>) of
                       (Inl ex, st2) \<Rightarrow> (Inl ex, st2)
                     | (Inr result, st2) \<Rightarrow>
                         (Inr [(''success'', JBool True),
                               (''text'', JStr (text result)),
                               (''backend'', JStr (backend_value (backend result))),
                               (''confidence'', JNum (confidence result)),
                               (''processing_time'', JNum (processing_time result)),
                               (''timestamp'', JStr (now_isoformat env (world st2)))], st2)))))"

text \<open>
  The two handlers. Matching an exception against \<^verbatim>\<open>except sr.WaitTimeoutError\<close>
  evaluates \<^verbatim>\<open>sr\<close> first; if that raises, the new exception leaves the whole \<^verbatim>\<open>try\<close>
  statement.
\<close>

definition transcribe_once ::
  "('a, 'w) env \<Rightarrow> int \<Rightarrow> string option \<Rightarrow> ('a, 'w) state
    \<Rightarrow> (exn + payload) \<times> ('a, 'w) state" where
  "transcribe_once env duration backend_name st =
     (case transcribe_once_body env duration backend_name st of
        (Inr response, st') \<Rightarrow> (Inr response, st')
      | (Inl ex, st') \<Rightarrow>
          (case sr_unbound env (Some ex) of
             Some name_error \<Rightarrow> (Inl name_error, st')
           | None \<Rightarrow>
               (if isinstance (exn_class ex) WaitTimeoutError then
                  (Inr [(''success'', JBool False),
                        (''error'', JStr ''No speech detected within timeout period''),
                        (''text'', JStr ''''),
                        (''timeout'', JBool True)], st')
                else
                  (Inr [(''success'', JBool False),
                        (''error'', JStr (''Transcription failed: '' @ message ex)),
                        (''text'', JStr '''')], st'))))"

subsection \<open>\<^verbatim>\<open>calibrate_audio\<close>\<close>

definition calibrate_audio_body ::
  "('a, 'w) env \<Rightarrow> real \<Rightarrow> ('a, 'w) state \<Rightarrow> (exn + payload) \<times> ('a, 'w) state" where
  "calibrate_audio_body env duration st =
     (case get_speech_engine env st of
        (Inl ex, st1) \<Rightarrow> (Inl ex, st1)
      | (Inr engine, st1) \<Rightarrow>
          (case calibrate_microphone env engine duration (world st1) of
             (Some ex, engine', w1) \<Rightarrow> (Inl ex, st1\<lparr>speech_engine := Some engine', world := w1\<rparr>)
           | (None, engine', w1) \<Rightarrow>
               (case sr_unbound env None of
                  Some ex \<Rightarrow> (Inl ex, st1\<lparr>speech_engine := Some engine', world := w1\<rparr>)
                | None \<Rightarrow>
                    (case ambient_threshold env w1 of
                       (Inl ex, w2) \<Rightarrow>
                         (Inl ex, st1\<lparr>speech_engine := Some engine', world := w2\<rparr>)
                     | (Inr threshold, w2) \<Rightarrow>
                         (Inr [(''success'', JBool True),
                               (''energy_threshold'', JNum threshold),
                               (''duration'', JNum duration),
                               (''message'',
                                JStr (''Microphone calibrated successfully (threshold: ''
                                       @ format_1f env threshold @ '')''))],
                          st1\<lparr>speech_engine := Some engine', world := w2\<rparr>)))))"

definition calibrate_audio ::
  "('a, 'w) env \<Rightarrow> real \<Rightarrow> ('a, 'w) state \<Rightarrow> (exn + payload) \<times> ('a, 'w) state" where
  "calibrate_audio env duration st =
     (case calibrate_audio_body env duration st of
        (Inr response, st') \<Rightarrow> (Inr response, st')
      | (Inl ex, st') \<Rightarrow>
          (Inr [(''success'', JBool False),
                (''error'', JStr (''Calibration failed: '' @ message ex))], st'))"

subsection \<open>\<^verbatim>\<open>list_audio_devices\<close>\<close>

text \<open>
  The search for the default device: the index of the first device whose \<^verbatim>\<open>default\<close>
  entry is true, \<^verbatim>\<open>None\<close> when there is none; \<^verbatim>\<open>device['index']\<close> on a dict without that
  key is a \<^verbatim>\<open>KeyError\<close>.
\<close>

fun find_default :: "payload list \<Rightarrow> exn + json" where
  "find_default [] = Inr JNull"
| "find_default (device # devices) =
     (if map_of device ''default'' = Some (JBool True) then
        (case map_of device ''index'' of
           Some i \<Rightarrow> Inr i
         | None \<Rightarrow> Inl (Exn (Subclass ''KeyError'' Exception) (apostrophe @ ''index'' @ apostrophe) None))
      else find_default devices)"

definition list_audio_devices_body ::
  "('a, 'w) env \<Rightarrow> ('a, 'w) state \<Rightarrow> (exn + payload) \<times> ('a, 'w) state" where
  "list_audio_devices_body env st =
     (case get_speech_engine env st of
        (Inl ex, st1) \<Rightarrow> (Inl ex, st1)
      | (Inr engine, st1) \<Rightarrow>
          (case list_available_microphones env (world st1) of
             (Inl ex, w1) \<Rightarrow> (Inl ex, st1\<lparr>world := w1\<rparr>)
           | (Inr devices, w1) \<Rightarrow>
               (case find_default devices of
                  Inl ex \<Rightarrow> (Inl ex, st1\<lparr>world := w1\<rparr>)
                | Inr default_device \<Rightarrow>
                    (Inr [(''devices'', JList (map JObj devices)),
                          (''default_device'', default_device),
                          (''total_count'', JInt (int (length devices)))],
                     st1\<lparr>world := w1\<rparr>))))"

definition list_audio_devices ::
  "('a, 'w) env \<Rightarrow> ('a, 'w) state \<Rightarrow> (exn + payload) \<times> ('a, 'w) state" where
  "list_audio_devices env st =
     (case list_audio_devices_body env st of
        (Inr response, st') \<Rightarrow> (Inr response, st')
      | (Inl ex, st') \<Rightarrow>
          (Inr [(''error'', JStr (''Failed to list audio devices: '' @ message ex)),
                (''devices'', JList []),
                (''total_count'', JInt 0)], st'))"

subsection \<open>\<^verbatim>\<open>get_engine_status\<close>\<close>

text \<open>
  \<^verbatim>\<open>bool(key and key.strip())\<close>: the key is set and has a character that is not white
  space. The white space that \<^verbatim>\<open>str.strip\<close> removes is, among the code points below
  256: tab to carriage return, the four separators U+001C to U+001F, the space, the next
  line control U+0085 and the no-break space U+00A0.
\<close>

definition is_space :: "char \<Rightarrow> bool" where
  "is_space c =
     (c \<in> set [CHR 0x09, CHR 0x0A, CHR 0x0B, CHR 0x0C, CHR 0x0D,
               CHR 0x1C, CHR 0x1D, CHR 0x1E, CHR 0x1F, CHR 0x20, CHR 0x85, CHR 0xA0])"

fun key_configured :: "string option \<Rightarrow> bool" where
  "key_configured None = False"
| "key_configured (Some k) = (\<exists>c \<in> set k. \<not> is_space c)"

text \<open>A configured backend as a JSON value: \<^verbatim>\<open>b.value if b else None\<close>.\<close>

fun value_or_null :: "RecognitionBackend option \<Rightarrow> json" where
  "value_or_null None = JNull"
| "value_or_null (Some b) = JStr (backend_value b)"

text \<open>
  The loop that fills \<^verbatim>\<open>engine_details\<close> assigns one entry for each item, keyed by the
  value of the backend.
\<close>

fun engine_details ::
  "(RecognitionBackend \<times> ('a, 'w) engine) list \<Rightarrow> payload \<Rightarrow> payload" where
  "engine_details [] details = details"
| "engine_details ((b, eng) # items) details =
     engine_details items
       (dict_set (backend_value b)
          (JObj [(''available'', JBool (available eng)), (''type'', JStr (class_name eng))])
          details)"

definition get_engine_status_body ::
  "('a, 'w) env \<Rightarrow> ('a, 'w) state \<Rightarrow> (exn + payload) \<times> ('a, 'w) state" where
  "get_engine_status_body env st =
     (case get_speech_engine env st of
        (Inl ex, st1) \<Rightarrow> (Inl ex, st1)
      | (Inr engine, st1) \<Rightarrow>
          (Inr [(''available_engines'',
                   JList (map (\<lambda>(b, e). JStr (backend_value b)) (engines engine))),
                (''primary_engine'', value_or_null (primary engine)),
                (''fallback_engine'', value_or_null (fallback engine)),
                (''elevenlabs_api_configured'',
                   JBool (key_configured (getenv env ''ELEVENLABS_API_KEY''))),
                (''engine_details'', JObj (engine_details (engines engine) [])),
                (''total_engines'', JInt (int (length (engines engine))))], st1))"

definition get_engine_status ::
  "('a, 'w) env \<Rightarrow> ('a, 'w) state \<Rightarrow> (exn + payload) \<times> ('a, 'w) state" where
  "get_engine_status env st =
     (case get_engine_status_body env st of
        (Inr response, st') \<Rightarrow> (Inr response, st')
      | (Inl ex, st') \<Rightarrow>
          (Inr [(''error'', JStr (''Failed to get engine status: '' @ message ex)),
                (''available_engines'', JList []),
                (''total_engines'', JInt 0)], st'))"

subsection \<open>Calls from the RPC layer\<close>

text \<open>
  A request names one of the six registered tools with its arguments; \<open>call_tool\<close> is
  what the RPC layer receives from the tool, \<open>serve\<close> the state after a sequence of
  requests.
\<close>

datatype request =
  Ping json
  | TestMicrophone real
  | TranscribeOnce int "string option"
  | CalibrateAudio real
  | ListAudioDevices
  | GetEngineStatus

fun call_tool ::
  "('a, 'w) env \<Rightarrow> request \<Rightarrow> ('a, 'w) state \<Rightarrow> (exn + payload) \<times> ('a, 'w) state" where
  "call_tool env (Ping p) st = (Inr (ping p), st)"
| "call_tool env (TestMicrophone duration) st = test_microphone env duration st"
| "call_tool env (TranscribeOnce duration backend_name) st =
     transcribe_once env duration backend_name st"
| "call_tool env (CalibrateAudio duration) st = calibrate_audio env duration st"
| "call_tool env ListAudioDevices st = list_audio_devices env st"
| "call_tool env GetEngineStatus st = get_engine_status env st"

fun serve :: "('a, 'w) env \<Rightarrow> request list \<Rightarrow> ('a, 'w) state \<Rightarrow> ('a, 'w) state" where
  "serve env [] st = st"
| "serve env (req # reqs) st = serve env reqs (snd (call_tool env req st))"

definition startup :: "'w \<Rightarrow> ('a, 'w) state" where
  "startup w = \<lparr>speech_engine = None, world = w, calls = []\<rparr>"

subsection \<open>Notions used in the statements\<close>

fun entry_phase :: "log_entry \<Rightarrow> phase" where
  "entry_phase (Succeeded ph b) = ph"
| "entry_phase (Failed ph b ex) = ph"

text \<open>
  The condition on the mapping that the server keeps: every engine in it is available and
  every key is one of the three backends that \<^verbatim>\<open>__init__\<close> registers.
\<close>

definition engines_ok :: "('a, 'w) MultiEngine \<Rightarrow> bool" where
  "engines_ok m =
     (\<forall>(b, e) \<in> set (engines m). available e \<and> b \<in> {ELEVENLABS, GOOGLE, WHISPER})"

definition state_ok :: "('a, 'w) state \<Rightarrow> bool" where
  "state_ok st = (case speech_engine st of None \<Rightarrow> True | Some m \<Rightarrow> engines_ok m)"

text \<open>The \<^verbatim>\<open>try\<close> body of the tool a request names; \<^verbatim>\<open>ping\<close> has no \<^verbatim>\<open>try\<close>.\<close>

fun tool_body ::
  "('a, 'w) env \<Rightarrow> request \<Rightarrow> ('a, 'w) state \<Rightarrow> (exn + payload) \<times> ('a, 'w) state" where
  "tool_body env (Ping p) st = (Inr (ping p), st)"
| "tool_body env (TestMicrophone duration) st = test_microphone_body env duration st"
| "tool_body env (TranscribeOnce duration backend_name) st =
     transcribe_once_body env duration backend_name st"
| "tool_body env (CalibrateAudio duration) st = calibrate_audio_body env duration st"
| "tool_body env ListAudioDevices st = list_audio_devices_body env st"
| "tool_body env GetEngineStatus st = get_engine_status_body env st"

fun is_transcribe :: "request \<Rightarrow> bool" where
  "is_transcribe (TranscribeOnce duration backend_name) = True"
| "is_transcribe req = False"

text \<open>
  A machine for evaluation, with the primary setting and whether somebody speaks left
  open: an ElevenLabs key is set and its SDK imports, Whisper is not installed, Google
  does not understand the audio, there is no input device to list, and the fallback
  setting names no backend. The world counts the oracle calls.
\<close>

definition demo_env :: "string \<Rightarrow> bool \<Rightarrow> (unit, nat) env" where
  "demo_env voice_backend speaking =
     \<lparr>getenv = map_of [(''ELEVENLABS_API_KEY'', ''sk-test''), (''VOICE_BACKEND'', voice_backend),
                        (''VOICE_FALLBACK'', ''azure'')],
      SPEECH_COMPONENTS_AVAILABLE = True,
      SpeechEngine_base = Inr 4000,
      import_elevenlabs = None,
      import_whisper = Some (Exn ImportError ''No module named whisper'' None),
      whisper_load_model = (\<lambda>name. None),
      elevenlabs_stt = (\<lambda>audio w. (Inr (1 / 10), Suc w)),
      recognize_google = (\<lambda>audio w. (Inl (Exn UnknownValueError [] None), Suc w)),
      recognize_whisper = (\<lambda>name audio w. (Inr (''hi'', 1), Suc w)),
      calibrate = (\<lambda>duration w. (Inr 350, Suc w)),
      probe_microphone = (\<lambda>duration w.
        (if speaking then Inr (JNull, 300)
         else Inl (Exn WaitTimeoutError
                     ''listening timed out while waiting for phrase to start'' None),
         Suc w)),
      ambient_threshold = (\<lambda>w. (Inr 320, Suc w)),
      capture = (\<lambda>duration w.
        (if speaking then Inr ()
         else Inl (Exn WaitTimeoutError
                     ''listening timed out while waiting for phrase to start'' None),
         Suc w)),
      list_microphone_names = (\<lambda>w.
        (Inl (Exn (Subclass ''OSError'' Exception) ''No Default Input Device Available'' None), Suc w)),
      default_device_index = (\<lambda>w. (Inr None, w)),
      now_isoformat = (\<lambda>w. ''2025-01-01T00:00:00''),
      format_1f = (\<lambda>x. ''320.0'')\<rparr>"

text \<open>The mapping that \<^verbatim>\<open>MultiEngine.__init__\<close> builds on this machine.\<close>

definition demo_engines :: "string \<Rightarrow> bool \<Rightarrow> (RecognitionBackend \<times> (unit, nat) engine) list" where
  "demo_engines voice_backend speaking =
     [(ELEVENLABS,
       \<lparr>class_name = ''ElevenLabsEngine'', available = True, energy_threshold = 4000,
        recognize = ElevenLabsEngine_recognize (demo_env voice_backend speaking) True\<rparr>),
      (GOOGLE,
       \<lparr>class_name = ''GoogleEngine'', available = True, energy_threshold = 4000,
        recognize = GoogleEngine_recognize (demo_env voice_backend speaking)\<rparr>)]"

subsection \<open>Concrete engines for evaluating the coordinator\<close>

text \<open>
  Two engines over a world that counts the calls made so far: one whose \<^verbatim>\<open>recognize\<close>
  always raises, one that always returns a given result.
\<close>

definition failing_engine :: "string \<Rightarrow> (unit, nat) engine" where
  "failing_engine msg =
     \<lparr>class_name = ''GoogleEngine'', available = True, energy_threshold = 4000,
      recognize = (\<lambda>audio w. (Inl (Exn Exception msg None), Suc w))\<rparr>"

definition succeeding_engine :: "RecognitionResult \<Rightarrow> (unit, nat) engine" where
  "succeeding_engine r =
     \<lparr>class_name = ''GoogleEngine'', available = True, energy_threshold = 4000,
      recognize = (\<lambda>audio w. (Inr r, Suc w))\<rparr>"

definition hello :: RecognitionResult where
  "hello = \<lparr>text = ''hello'', confidence = 9 / 10, backend = GOOGLE, processing_time = 1 / 2,
     metadata = None\<rparr>"

definition all_fail_engine :: "(unit, nat) MultiEngine" where
  "all_fail_engine =
     \<lparr>engines = [(ELEVENLABS, failing_engine ''quota''), (GOOGLE, failing_engine ''offline'')],
      primary = Some WHISPER, fallback = Some GOOGLE\<rparr>"

definition no_engine :: "(unit, nat) MultiEngine" where
  "no_engine = \<lparr>engines = [], primary = Some GOOGLE, fallback = None\<rparr>"

section \<open>Properties of the fallback coordinator\<close>

lemma first_success_append:
  "first_success (xs @ ys) audio w =
     (case first_success xs audio w of
        (Some result, lg, w') \<Rightarrow> (Some result, lg, w')
      | (None, lg, w') \<Rightarrow>
          (case first_success ys audio w' of (r, lg', w'') \<Rightarrow> (r, lg @ lg', w'')))"
proof (induction xs arbitrary: w)
  case Nil
  show ?case by (simp split: prod.splits)
next
  case (Cons c xs)
  obtain ph b e where c: "c = (ph, b, e)" by (cases c)
  show ?case
    by (simp add: c Cons.IH split: prod.splits sum.splits option.splits)
qed

lemma try_configured:
  "(case sel of
      None \<Rightarrow> (None, [], w)
    | Some b \<Rightarrow>
        (case map_of engs b of
           None \<Rightarrow> (None, [], w)
         | Some e \<Rightarrow> attempt ph b e audio w))
   = first_success (configured ph sel engs) audio w"
  by (simp add: configured_def attempt_def split: option.splits prod.splits sum.splits)

lemma try_remaining_first_success:
  "try_remaining [p, f] engs audio w =
     first_success
       (map (\<lambda>(b, e). (Secondary, b, e))
          (filter (\<lambda>(b, e). Some b \<noteq> p \<and> Some b \<noteq> f) engs)) audio w"
proof (induction engs arbitrary: w)
  case Nil
  show ?case by simp
next
  case (Cons x engs)
  obtain b e where x: "x = (b, e)" by (cases x)
  show ?case
    by (auto simp add: x Cons.IH attempt_def split: prod.splits sum.splits option.splits)
qed

lemma recognize_with_fallback_candidates:
  "recognize_with_fallback self audio w = finish (first_success (candidates self) audio w)"
  unfolding recognize_with_fallback_def candidates_def try_primary_def try_fallback_def
    try_configured try_remaining_first_success first_success_append finish_def
  by (simp split: prod.splits option.splits)

lemma failures_eq:
  "failures cs audio w =
     (case first_success cs audio w of
        (None, lg, w') \<Rightarrow> Some (lg, w')
      | (Some result, lg, w') \<Rightarrow> None)"
proof (induction cs arbitrary: w)
  case Nil
  show ?case by simp
next
  case (Cons c cs)
  obtain ph b e where c: "c = (ph, b, e)" by (cases c)
  show ?case
    by (simp add: c Cons.IH split: prod.splits sum.splits option.splits)
qed

lemma failures_first_success:
  "failures cs audio w = Some (lg, w') \<longleftrightarrow> first_success cs audio w = (None, lg, w')"
  by (auto simp add: failures_eq split: prod.splits option.splits)

lemma first_success_after_failures:
  assumes "failures pre audio w = Some (lg, w1)"
    and "recognize e audio w1 = (Inr r, w2)"
  shows "first_success (pre @ (ph, b, e) # post) audio w = (Some r, lg @ [Succeeded ph b], w2)"
proof -
  from assms(1) have "first_success pre audio w = (None, lg, w1)"
    by (simp add: failures_first_success)
  with assms(2) show ?thesis
    by (simp add: first_success_append)
qed

lemma first_success_log_prefix:
  "first_success cs audio w = (r, lg, w') \<Longrightarrow>
     prefix (map entry_backend lg) (map (\<lambda>(ph, b, e). b) cs)
     \<and> (r = None \<longrightarrow> map entry_backend lg = map (\<lambda>(ph, b, e). b) cs)"
proof (induction cs arbitrary: w lg r w')
  case Nil
  then show ?case by simp
next
  case (Cons c cs)
  obtain ph b e where c: "c = (ph, b, e)" by (cases c)
  from Cons.prems show ?case
    by (auto simp add: c split: prod.splits sum.splits dest: Cons.IH)
qed

lemma candidates_backends:
  "map (\<lambda>(ph, b, e). b) (candidates self) = attempt_order self"
proof -
  have conf: "map (\<lambda>(ph, b, e). b) (configured ph sel engs) =
     (case sel of None \<Rightarrow> [] | Some p \<Rightarrow> if p \<in> fst ` set engs then [p] else [])"
    for ph sel and engs :: "(RecognitionBackend \<times> ('a, 'b) engine) list"
    by (force simp add: configured_def map_of_eq_None_iff split: option.splits)
  have rest: "map (\<lambda>(ph, b, e). b) (map (\<lambda>(b, e). (Secondary, b, e)) (filter (\<lambda>(b, e). P b) engs))
      = filter P (map fst engs)" for P and engs :: "(RecognitionBackend \<times> ('a, 'b) engine) list"
    by (induction engs) auto
  show ?thesis
    unfolding candidates_def attempt_order_def by (simp only: map_append conf rest)
qed

lemma first_success_butlast_failed:
  "first_success cs audio w = (r, lg, w') \<Longrightarrow> x \<in> set (butlast lg) \<Longrightarrow> is_Failed x"
proof (induction cs arbitrary: w lg)
  case Nil
  then show ?case by simp
next
  case (Cons c cs)
  obtain ph b e where c: "c = (ph, b, e)" by (cases c)
  from Cons.prems show ?case
    by (auto simp add: c split: prod.splits sum.splits if_splits intro: Cons.IH)
qed

lemma keys_attempted: "fst ` set (engines self) \<subseteq> set (attempt_order self)"
  by (auto simp add: attempt_order_def split: option.splits)

lemma all_fail_run:
  "recognize_with_fallback all_fail_engine () 0
   = (Inl (Exn Exception ''All recognition engines failed'' None),
      [Failed Fallback GOOGLE (Exn Exception ''offline'' None),
       Failed Secondary ELEVENLABS (Exn Exception ''quota'' None)], 2)"
  by (simp add: recognize_with_fallback_def try_primary_def try_fallback_def attempt_def
      failing_engine_def all_failed_def all_fail_engine_def)

section \<open>Properties of construction and of the tool server\<close>

lemma dict_set_members:
  "(b, e) \<in> set (dict_set k v d) \<Longrightarrow> (b, e) = (k, v) \<or> (b, e) \<in> set d"
  by (auto simp add: dict_set_def split: if_splits)

lemma register_engines_ok:
  assumes "register_engines env = Inr engs" and "(b, e) \<in> set engs"
  shows "available e \<and> b \<in> {ELEVENLABS, GOOGLE, WHISPER}"
proof -
  from assms(1) obtain engines1 g wh where
    e1: "engines1 = [] \<or> (\<exists>el. engines1 = dict_set ELEVENLABS el [])"
    and engs: "engs = filter (\<lambda>(k, v). available v)
                  (dict_set WHISPER wh (dict_set GOOGLE g engines1))"
    by (auto simp add: register_engines_def split: if_splits sum.splits)
  from assms(2) have av: "available e"
    and mem: "(b, e) \<in> set (dict_set WHISPER wh (dict_set GOOGLE g engines1))"
    by (auto simp add: engs)
  from mem have "b = WHISPER \<or> b = GOOGLE \<or> (b, e) \<in> set engines1"
    by (auto dest!: dict_set_members)
  moreover from e1 have "(b, e) \<in> set engines1 \<Longrightarrow> b = ELEVENLABS"
    by (auto simp add: dict_set_def)
  ultimately show ?thesis using av by auto
qed

lemma RecognitionBackend_call_value:
  "x \<in> set (map backend_value members) \<Longrightarrow> \<exists>b. RecognitionBackend_call x = Inr b \<and> backend_value b = x"
  by (auto simp add: members_def RecognitionBackend_call_def)

lemma backend_or_none_returns:
  "\<exists>r. backend_or_none x = Inr r \<and> (x \<notin> set (map backend_value members) \<longrightarrow> r = None)"
proof (cases "x \<in> set (map backend_value members)")
  case True
  from RecognitionBackend_call_value[OF True] show ?thesis
    by (auto simp add: backend_or_none_def True)
next
  case False
  then show ?thesis by (simp add: backend_or_none_def)
qed

lemma MultiEngine_init_cases:
  "(\<exists>ex. register_engines env = Inl ex \<and> MultiEngine_init env = Inl ex)
   \<or> (\<exists>engs p f. register_engines env = Inr engs
         \<and> backend_or_none (lower (getenv_default env ''VOICE_BACKEND'' ''elevenlabs'')) = Inr p
         \<and> backend_or_none (lower (getenv_default env ''VOICE_FALLBACK'' ''google'')) = Inr f
         \<and> MultiEngine_init env = Inr \<lparr>engines = engs, primary = p, fallback = f\<rparr>)"
proof (cases "register_engines env")
  case (Inl ex)
  then show ?thesis by (simp add: MultiEngine_init_def)
next
  case (Inr engs)
  obtain p where p: "backend_or_none (lower (getenv_default env ''VOICE_BACKEND'' ''elevenlabs'')) = Inr p"
    using backend_or_none_returns by blast
  obtain f where f: "backend_or_none (lower (getenv_default env ''VOICE_FALLBACK'' ''google'')) = Inr f"
    using backend_or_none_returns by blast
  show ?thesis by (simp add: MultiEngine_init_def Inr p f)
qed

lemma register_engines_settings:
  "isl (register_engines
          (env\<lparr>getenv := (getenv env)(''VOICE_BACKEND'' := v1, ''VOICE_FALLBACK'' := v2)\<rparr>))
     = isl (register_engines env)"
  by (simp add: register_engines_def ElevenLabsEngine_init_def GoogleEngine_init_def
      WhisperEngine_init_def WhisperEngine_try_def split: sum.splits option.splits)

lemma MultiEngine_init_isl: "isl (MultiEngine_init env) = isl (register_engines env)"
  using MultiEngine_init_cases[of env] by auto

lemma MultiEngine_init_engines_ok:
  "MultiEngine_init env = Inr m \<Longrightarrow> engines_ok m"
  using MultiEngine_init_cases[of env]
  by (auto simp add: engines_ok_def dest: register_engines_ok)

lemma get_speech_engine_ok:
  assumes "state_ok st" and "get_speech_engine env st = (r, st1)"
  shows "state_ok st1 \<and> calls st1 = calls st \<and> world st1 = world st
    \<and> (\<forall>m. r = Inr m \<longrightarrow> engines_ok m \<and> speech_engine st1 = Some m)
    \<and> (\<forall>ex. r = Inl ex \<longrightarrow> st1 = st)"
  using assms
  by (auto simp add: get_speech_engine_def state_ok_def split: option.splits if_splits sum.splits
      dest: MultiEngine_init_engines_ok MultiEngine_init_engines_ok[OF sym])

lemma calibrate_microphone_ok:
  assumes "engines_ok m" and "calibrate_microphone env m duration w = (r, m', w')"
  shows "engines_ok m'"
  using assms
  by (fastforce simp add: calibrate_microphone_def engines_ok_def case_prod_beta
      split: list.splits prod.splits sum.splits)

lemma state_ok_updates:
  "state_ok (st\<lparr>world := w\<rparr>) = state_ok st"
  "state_ok (st\<lparr>calls := c\<rparr>) = state_ok st"
  "state_ok (st\<lparr>speech_engine := Some m\<rparr>) = engines_ok m"
  by (simp_all add: state_ok_def)

lemma recognize_selected_engine:
  assumes "recognize_selected engine backend_name audio st = (r, st')"
  shows "speech_engine st' = speech_engine st"
proof (cases "truthy backend_name")
  case False
  obtain r0 lg w' where "recognize_with_fallback engine audio (world st) = (r0, lg, w')"
    by (cases "recognize_with_fallback engine audio (world st)")
  with assms False show ?thesis
    by (auto simp add: recognize_selected_def)
next
  case True
  show ?thesis
  proof (cases "RecognitionBackend_call (lower (the backend_name))")
    case (Inl ex)
    with assms True show ?thesis
      by (auto simp add: recognize_selected_def split: if_splits)
  next
    case (Inr b)
    show ?thesis
    proof (cases "map_of (engines engine) b")
      case None
      with assms True Inr show ?thesis
        by (auto simp add: recognize_selected_def split: if_splits)
    next
      case (Some e)
      obtain r0 w' where "recognize e audio (world st) = (r0, w')"
        by (cases "recognize e audio (world st)")
      with assms True Inr Some show ?thesis
        by (cases r0) (auto simp add: recognize_selected_def split: if_splits)
    qed
  qed
qed

lemma test_microphone_ok:
  assumes "state_ok st"
  shows "state_ok (snd (test_microphone env duration st))"
proof -
  obtain r st1 where g: "get_speech_engine env st = (r, st1)"
    by (cases "get_speech_engine env st")
  from get_speech_engine_ok[OF assms g] have "state_ok st1" by simp
  then show ?thesis
    by (cases r)
      (simp_all add: test_microphone_def test_microphone_body_def g state_ok_updates
        split: prod.splits)
qed

lemma transcribe_once_body_ok:
  assumes "state_ok st"
  shows "state_ok (snd (transcribe_once_body env duration backend_name st))"
proof -
  obtain r st1 where g: "get_speech_engine env st = (r, st1)"
    by (cases "get_speech_engine env st")
  from get_speech_engine_ok[OF assms g] have ok: "state_ok st1" by simp
  have sel: "state_ok (snd (recognize_selected engine backend_name audio (st1\<lparr>world := w1\<rparr>)))"
    for engine audio w1
  proof -
    obtain r2 st2 where r2:
      "recognize_selected engine backend_name audio (st1\<lparr>world := w1\<rparr>) = (r2, st2)"
      by (cases "recognize_selected engine backend_name audio (st1\<lparr>world := w1\<rparr>)")
    from recognize_selected_engine[OF r2] have "speech_engine st2 = speech_engine st1"
      by simp
    with ok show ?thesis
      by (simp add: r2 state_ok_def)
  qed
  show ?thesis
  proof (cases r)
    case (Inl ex)
    with ok show ?thesis by (simp add: transcribe_once_body_def g)
  next
    case (Inr engine)
    show ?thesis
    proof (cases "sr_unbound env None")
      case (Some ex)
      with ok Inr show ?thesis by (simp add: transcribe_once_body_def g)
    next
      case None
      obtain c w1 where c: "capture env duration (world st1) = (c, w1)"
        by (cases "capture env duration (world st1)")
      show ?thesis
      proof (cases c)
        case (Inl ex)
        with ok Inr None c show ?thesis
          by (simp add: transcribe_once_body_def g state_ok_updates)
      next
        case (Inr audio)
        obtain r2 st2 where r2: "recognize_selected engine backend_name audio (st1\<lparr>world := w1\<rparr>) = (r2, st2)"
          by (cases "recognize_selected engine backend_name audio (st1\<lparr>world := w1\<rparr>)")
        from sel[of engine audio w1] r2 have "state_ok st2" by simp
        with \<open>r = Inr engine\<close> None c Inr r2 show ?thesis
          by (cases r2) (simp_all add: transcribe_once_body_def g)
      qed
    qed
  qed
qed

lemma transcribe_once_ok:
  assumes "state_ok st"
  shows "state_ok (snd (transcribe_once env duration backend_name st))"
  using transcribe_once_body_ok[OF assms, of env duration backend_name]
  by (cases "transcribe_once_body env duration backend_name st")
    (auto simp add: transcribe_once_def split: sum.splits option.splits)

lemma calibrate_audio_ok:
  assumes "state_ok st"
  shows "state_ok (snd (calibrate_audio env duration st))"
proof -
  obtain r st1 where g: "get_speech_engine env st = (r, st1)"
    by (cases "get_speech_engine env st")
  note facts = get_speech_engine_ok[OF assms g]
  show ?thesis
  proof (cases r)
    case (Inl ex)
    with facts assms show ?thesis by (simp add: calibrate_audio_def calibrate_audio_body_def g)
  next
    case (Inr engine)
    obtain x engine' w1 where c: "calibrate_microphone env engine duration (world st1) = (x, engine', w1)"
      by (cases "calibrate_microphone env engine duration (world st1)")
    from facts Inr have "engines_ok engine" by simp
    from calibrate_microphone_ok[OF this c] have "engines_ok engine'" .
    then show ?thesis
      by (simp add: calibrate_audio_def calibrate_audio_body_def g Inr c state_ok_updates
          split: option.splits prod.splits sum.splits)
  qed
qed

lemma list_audio_devices_ok:
  assumes "state_ok st"
  shows "state_ok (snd (list_audio_devices env st))"
proof -
  obtain r st1 where g: "get_speech_engine env st = (r, st1)"
    by (cases "get_speech_engine env st")
  from get_speech_engine_ok[OF assms g] have "state_ok st1" by simp
  then show ?thesis
    by (cases r)
      (simp_all add: list_audio_devices_def list_audio_devices_body_def g state_ok_updates
        split: prod.splits sum.splits)
qed

lemma get_engine_status_ok:
  assumes "state_ok st"
  shows "state_ok (snd (get_engine_status env st))"
proof -
  obtain r st1 where g: "get_speech_engine env st = (r, st1)"
    by (cases "get_speech_engine env st")
  from get_speech_engine_ok[OF assms g] have "state_ok st1" by simp
  then show ?thesis
    by (cases r) (simp_all add: get_engine_status_def get_engine_status_body_def g)
qed

lemma call_tool_ok: "state_ok st \<Longrightarrow> state_ok (snd (call_tool env req st))"
  by (cases req)
    (simp_all add: test_microphone_ok transcribe_once_ok calibrate_audio_ok
      list_audio_devices_ok get_engine_status_ok)

lemma serve_ok: "state_ok st \<Longrightarrow> state_ok (serve env reqs st)"
  by (induction reqs arbitrary: st) (simp_all add: call_tool_ok)

lemma startup_ok: "state_ok (startup w)"
  by (simp add: startup_def state_ok_def)

lemma backend_value_inj: "backend_value a = backend_value b \<longleftrightarrow> a = b"
  by (cases a; cases b) simp_all

lemma get_speech_engine_calls:
  "get_speech_engine env st = (r, st1) \<Longrightarrow> calls st1 = calls st \<and> world st1 = world st"
  by (auto simp add: get_speech_engine_def split: option.splits if_splits sum.splits)

lemma openai_lookup: "RecognitionBackend_call ''openai'' = Inr OPENAI_REALTIME"
  by (simp add: RecognitionBackend_call_def members_def)

lemma openai_not_registered:
  "engines_ok m \<Longrightarrow> map_of (engines m) OPENAI_REALTIME = None"
  by (auto simp add: engines_ok_def map_of_eq_None_iff)

lemma recognize_selected_openai:
  assumes "engines_ok engine" and "lower name = ''openai''"
  shows "\<exists>ex. recognize_selected engine (Some name) audio st = (Inl ex, st)"
proof -
  from assms(2) have "name \<noteq> []" by (auto simp add: lower_def)
  then show ?thesis
    by (simp add: recognize_selected_def assms(2) openai_lookup
        openai_not_registered[OF assms(1)])
qed

lemma transcribe_once_body_openai:
  assumes "state_ok st" and "lower name = ''openai''"
  shows "\<exists>ex st'. transcribe_once_body env duration (Some name) st = (Inl ex, st')
           \<and> calls st' = calls st"
proof -
  obtain r st1 where g: "get_speech_engine env st = (r, st1)"
    by (cases "get_speech_engine env st")
  note facts = get_speech_engine_ok[OF assms(1) g]
  show ?thesis
  proof (cases r)
    case (Inl ex)
    with facts show ?thesis by (simp add: transcribe_once_body_def g)
  next
    case (Inr engine)
    with facts have eok: "engines_ok engine" by simp
    show ?thesis
    proof (cases "sr_unbound env None")
      case (Some ex)
      with facts Inr show ?thesis by (simp add: transcribe_once_body_def g)
    next
      case None
      obtain c w1 where c: "capture env duration (world st1) = (c, w1)"
        by (cases "capture env duration (world st1)")
      show ?thesis
      proof (cases c)
        case (Inl ex)
        with facts \<open>r = Inr engine\<close> None c show ?thesis
          by (simp add: transcribe_once_body_def g)
      next
        case (Inr audio)
        from recognize_selected_openai[OF eok assms(2), of audio "st1\<lparr>world := w1\<rparr>"]
        obtain ex where "recognize_selected engine (Some name) audio (st1\<lparr>world := w1\<rparr>)
            = (Inl ex, st1\<lparr>world := w1\<rparr>)" by blast
        with facts \<open>r = Inr engine\<close> None c Inr show ?thesis
          by (simp add: transcribe_once_body_def g)
      qed
    qed
  qed
qed

lemma transcribe_once_openai:
  assumes "state_ok st" and "lower name = ''openai''"
  shows "calls (snd (transcribe_once env duration (Some name) st)) = calls st
    \<and> (\<forall>p. fst (transcribe_once env duration (Some name) st) = Inr p \<longrightarrow>
          map_of p ''success'' = Some (JBool False))"
proof -
  from transcribe_once_body_openai[OF assms, of env duration]
  obtain ex st' where b: "transcribe_once_body env duration (Some name) st = (Inl ex, st')"
    and c: "calls st' = calls st" by blast
  show ?thesis
    by (auto simp add: transcribe_once_def b c split: option.splits)
qed

lemma first_success_phase_member:
  "first_success cs audio w = (r, lg, w') \<Longrightarrow> x \<in> set lg \<Longrightarrow> entry_phase x \<in> fst ` set cs"
proof (induction cs arbitrary: w lg)
  case Nil
  then show ?case by simp
next
  case (Cons c cs)
  obtain ph b e where c: "c = (ph, b, e)" by (cases c)
  from Cons.prems show ?case
    by (auto simp add: c split: prod.splits sum.splits dest: Cons.IH)
qed

lemma first_success_phases:
  "first_success cs audio w = (r, lg, w') \<Longrightarrow> entry_phase ` set lg \<subseteq> fst ` set cs"
  by (auto dest: first_success_phase_member)

lemma candidates_phases:
  "fst ` set (candidates self)
     \<subseteq> (case primary self of None \<Rightarrow> {} | Some p \<Rightarrow> {Primary})
       \<union> (case fallback self of None \<Rightarrow> {} | Some f \<Rightarrow> {Fallback}) \<union> {Secondary}"
  by (auto simp add: candidates_def configured_def split: option.splits)

lemma log_phases:
  "entry_phase ` set (fst (snd (recognize_with_fallback self audio w)))
     \<subseteq> (case primary self of None \<Rightarrow> {} | Some p \<Rightarrow> {Primary})
       \<union> (case fallback self of None \<Rightarrow> {} | Some f \<Rightarrow> {Fallback}) \<union> {Secondary}"
proof -
  obtain r lg w' where fs: "first_success (candidates self) audio w = (r, lg, w')"
    by (cases "first_success (candidates self) audio w")
  have "fst (snd (recognize_with_fallback self audio w)) = lg"
    by (cases r) (simp_all add: recognize_with_fallback_candidates fs finish_def)
  with first_success_phases[OF fs] candidates_phases[of self] show ?thesis
    by simp
qed

lemma demo_env_simps:
  "getenv (demo_env vb sp) = map_of [(''ELEVENLABS_API_KEY'', ''sk-test''), (''VOICE_BACKEND'', vb),
                        (''VOICE_FALLBACK'', ''azure'')]"
  "SPEECH_COMPONENTS_AVAILABLE (demo_env vb sp) = True"
  "SpeechEngine_base (demo_env vb sp) = Inr 4000"
  "import_elevenlabs (demo_env vb sp) = None"
  "import_whisper (demo_env vb sp) = Some (Exn ImportError ''No module named whisper'' None)"
  "elevenlabs_stt (demo_env vb sp) = (\<lambda>audio w. (Inr (1 / 10), Suc w))"
  "recognize_google (demo_env vb sp) = (\<lambda>audio w. (Inl (Exn UnknownValueError [] None), Suc w))"
  "calibrate (demo_env vb sp) = (\<lambda>duration w. (Inr 350, Suc w))"
  "ambient_threshold (demo_env vb sp) = (\<lambda>w. (Inr 320, Suc w))"
  "capture (demo_env vb sp) = (\<lambda>duration w.
        (if sp then Inr ()
         else Inl (Exn WaitTimeoutError
                     ''listening timed out while waiting for phrase to start'' None),
         Suc w))"
  "list_microphone_names (demo_env vb sp) = (\<lambda>w.
        (Inl (Exn (Subclass ''OSError'' Exception) ''No Default Input Device Available'' None), Suc w))"
  "format_1f (demo_env vb sp) = (\<lambda>x. ''320.0'')"
  "probe_microphone (demo_env vb sp) = (\<lambda>duration w.
        (if sp then Inr (JNull, 300)
         else Inl (Exn WaitTimeoutError
                     ''listening timed out while waiting for phrase to start'' None),
         Suc w))"
  by (simp_all add: demo_env_def)

lemma lower_Google: "lower ''Google'' = ''google''"
  by (simp add: lower_def lower_char_def upper_case_def lower_case_def)

lemma lower_siri: "lower ''siri'' = ''siri''"
  by (simp add: lower_def lower_char_def upper_case_def lower_case_def)

lemma lower_azure: "lower ''azure'' = ''azure''"
  by (simp add: lower_def lower_char_def upper_case_def lower_case_def)

lemma lower_OpenAI: "lower ''OpenAI'' = ''openai''"
  by (simp add: lower_def lower_char_def upper_case_def lower_case_def)

lemma demo_register:
  "register_engines (demo_env vb sp) = Inr (demo_engines vb sp)"
  by (simp add: register_engines_def demo_env_simps ElevenLabsEngine_init_def GoogleEngine_init_def
      WhisperEngine_init_def WhisperEngine_try_def dict_set_def demo_engines_def)

lemma demo_init_Google:
  "MultiEngine_init (demo_env ''Google'' sp)
     = Inr \<lparr>engines = demo_engines ''Google'' sp, primary = Some GOOGLE, fallback = None\<rparr>"
  by (simp add: MultiEngine_init_def demo_register getenv_default_def demo_env_simps
      lower_Google lower_azure backend_or_none_def members_def RecognitionBackend_call_def)

lemma demo_init_siri:
  "MultiEngine_init (demo_env ''siri'' sp)
     = Inr \<lparr>engines = demo_engines ''siri'' sp, primary = None, fallback = None\<rparr>"
  by (simp add: MultiEngine_init_def demo_register getenv_default_def demo_env_simps
      lower_siri lower_azure backend_or_none_def members_def)

lemma demo_get_engine:
  "get_speech_engine (demo_env ''Google'' sp) (startup 0)
     = (Inr \<lparr>engines = demo_engines ''Google'' sp, primary = Some GOOGLE, fallback = None\<rparr>,
        \<lparr>speech_engine =
           Some \<lparr>engines = demo_engines ''Google'' sp, primary = Some GOOGLE, fallback = None\<rparr>,
         world = 0, calls = []\<rparr>)"
  by (simp add: get_speech_engine_def startup_def demo_env_simps demo_init_Google)

lemma demo_run_siri:
  "recognize_with_fallback
     \<lparr>engines = demo_engines ''siri'' False, primary = None, fallback = None\<rparr> () 0
   = (Inr \<lparr>text = ''ElevenLabs transcription placeholder'', confidence = 95 / 100,
           backend = ELEVENLABS, processing_time = 1 / 10,
           metadata = Some [(''transcript'', JStr ''ElevenLabs transcription placeholder''),
                            (''confidence'', JNum (95 / 100)), (''duration'', JNum 0)]\<rparr>,
      [Succeeded Secondary ELEVENLABS], 1)"
  by (simp add: recognize_with_fallback_def try_primary_def try_fallback_def attempt_def
      demo_engines_def ElevenLabsEngine_recognize_def demo_env_simps)

text \<open>
  C1. The call returns the result of the earliest candidate, in the attempt order, whose
  \<^verbatim>\<open>recognize\<close> returns: when every candidate before it raises, each in the world the one
  before left, those exceptions are caught and logged, none of them reaches the caller,
  and the result is that candidate's. With a primary backend that fails and a fallback
  backend that succeeds the result is the fallback's.
\<close>

theorem fallback_returns_first_success:
  assumes "candidates self = pre @ (ph, b, e) # post"
    and "failures pre audio w = Some (lg, w1)"
    and "recognize e audio w1 = (Inr r, w2)"
  shows "recognize_with_fallback self audio w = (Inr r, lg @ [Succeeded ph b], w2)"
  by (simp add: recognize_with_fallback_candidates assms(1)
      first_success_after_failures[OF assms(2,3)] finish_def)

theorem fallback_returns_first_success_witness:
  "candidates \<lparr>engines = [(ELEVENLABS, failing_engine ''no key''), (GOOGLE, succeeding_engine hello)],
       primary = Some ELEVENLABS, fallback = Some GOOGLE\<rparr>
     = [(Primary, ELEVENLABS, failing_engine ''no key'')] @ (Fallback, GOOGLE, succeeding_engine hello) # []
   \<and> failures [(Primary, ELEVENLABS, failing_engine ''no key'')] () 0
       = Some ([Failed Primary ELEVENLABS (Exn Exception ''no key'' None)], 1)
   \<and> recognize (succeeding_engine hello) () 1 = (Inr hello, 2)
   \<and> recognize_with_fallback
       \<lparr>engines = [(ELEVENLABS, failing_engine ''no key''), (GOOGLE, succeeding_engine hello)],
        primary = Some ELEVENLABS, fallback = Some GOOGLE\<rparr> () 0
     = (Inr hello,
        [Failed Primary ELEVENLABS (Exn Exception ''no key'' None), Succeeded Fallback GOOGLE], 2)"
proof -
  let ?m = "\<lparr>engines = [(ELEVENLABS, failing_engine ''no key''), (GOOGLE, succeeding_engine hello)],
       primary = Some ELEVENLABS, fallback = Some GOOGLE\<rparr>"
  have c: "candidates ?m
     = [(Primary, ELEVENLABS, failing_engine ''no key'')] @ (Fallback, GOOGLE, succeeding_engine hello) # []"
    by (simp add: candidates_def configured_def)
  have f: "failures [(Primary, ELEVENLABS, failing_engine ''no key'')] () 0
       = Some ([Failed Primary ELEVENLABS (Exn Exception ''no key'' None)], 1)"
    by (simp add: failing_engine_def)
  have r: "recognize (succeeding_engine hello) () 1 = (Inr hello, 2)"
    by (simp add: succeeding_engine_def)
  from fallback_returns_first_success[OF c f r] c f r show ?thesis
    by simp
qed

text \<open>
  C2. With the primary and the fallback set to the same registered backend, a failing
  primary attempt is followed by a second call of the same engine in the fallback phase:
  the fallback block has no test that the fallback differs from the primary.
\<close>

theorem same_primary_fallback_attempted_twice:
  "recognize_with_fallback
     \<lparr>engines = [(GOOGLE, failing_engine ''Could not understand audio'')],
      primary = Some GOOGLE, fallback = Some GOOGLE\<rparr> () 0
   = (Inl (Exn Exception ''All recognition engines failed'' None),
      [Failed Primary GOOGLE (Exn Exception ''Could not understand audio'' None),
       Failed Fallback GOOGLE (Exn Exception ''Could not understand audio'' None)],
      2)"
  by (simp add: recognize_with_fallback_def try_primary_def try_fallback_def attempt_def
      failing_engine_def all_failed_def)

text \<open>
  C3. The call raises exactly when every candidate raises when tried in turn; it then raises
  the one exception \<^verbatim>\<open>Exception("All recognition engines failed")\<close>, which has a constant
  message and no context, and every key of the mapping has been attempted. With an empty
  mapping it raises.
\<close>

theorem fallback_raises_iff_all_fail:
  "(isl (fst (recognize_with_fallback self audio w))
      \<longleftrightarrow> failures (candidates self) audio w \<noteq> None)
   \<and> (isl (fst (recognize_with_fallback self audio w)) \<longrightarrow>
        fst (recognize_with_fallback self audio w)
          = Inl (Exn Exception ''All recognition engines failed'' None)
        \<and> fst ` set (engines self)
            \<subseteq> entry_backend ` set (fst (snd (recognize_with_fallback self audio w))))
   \<and> (engines self = [] \<longrightarrow> isl (fst (recognize_with_fallback self audio w)))"
proof -
  obtain r lg w' where fs: "first_success (candidates self) audio w = (r, lg, w')"
    by (cases "first_success (candidates self) audio w")
  have rwf: "recognize_with_fallback self audio w = finish (r, lg, w')"
    by (simp add: recognize_with_fallback_candidates fs)
  have iff: "isl (fst (finish (r, lg, w'))) \<longleftrightarrow> r = None"
    by (cases r) (simp_all add: finish_def)
  have fl: "failures (candidates self) audio w \<noteq> None \<longleftrightarrow> r = None"
    by (cases r) (simp_all add: failures_eq fs)
  have val: "fst (finish (None, lg, w')) = Inl (Exn Exception ''All recognition engines failed'' None)"
    by (simp add: finish_def all_failed_def)
  have lgs: "fst (snd (finish (r, lg, w'))) = lg"
    by (cases r) (simp_all add: finish_def)
  have cover: "r = None \<Longrightarrow> fst ` set (engines self) \<subseteq> entry_backend ` set lg"
  proof -
    assume "r = None"
    with first_success_log_prefix[OF fs] have "map entry_backend lg = attempt_order self"
      by (simp add: candidates_backends)
    then have "entry_backend ` set lg = set (attempt_order self)"
      by (metis set_map)
    with keys_attempted[of self] show ?thesis by simp
  qed
  have empty: "engines self = [] \<Longrightarrow> r = None"
    using fs by (simp add: candidates_def configured_def split: option.splits)
  show ?thesis
    unfolding rwf iff fl lgs using val cover empty by auto
qed

theorem fallback_raises_iff_all_fail_witness:
  "isl (fst (recognize_with_fallback all_fail_engine () 0))
   \<and> failures (candidates all_fail_engine) () 0 \<noteq> None
   \<and> fst (recognize_with_fallback all_fail_engine () 0)
       = Inl (Exn Exception ''All recognition engines failed'' None)
   \<and> fst ` set (engines all_fail_engine)
       \<subseteq> entry_backend ` set (fst (snd (recognize_with_fallback all_fail_engine () 0)))
   \<and> engines no_engine = []
   \<and> isl (fst (recognize_with_fallback no_engine () 0))"
proof -
  have h: "isl (fst (recognize_with_fallback all_fail_engine () 0))"
    by (simp add: all_fail_run)
  have e: "engines no_engine = []"
    by (simp add: no_engine_def)
  have a: "failures (candidates all_fail_engine) () 0 \<noteq> None
   \<and> fst (recognize_with_fallback all_fail_engine () 0)
       = Inl (Exn Exception ''All recognition engines failed'' None)
   \<and> fst ` set (engines all_fail_engine)
       \<subseteq> entry_backend ` set (fst (snd (recognize_with_fallback all_fail_engine () 0)))"
    using fallback_raises_iff_all_fail[of all_fail_engine "()" 0] h
    by (elim conjE) (intro conjI, simp_all only: simp_thms)
  have b: "isl (fst (recognize_with_fallback no_engine () 0))"
    using fallback_raises_iff_all_fail[of no_engine "()" 0] e
    by (elim conjE) (simp only: simp_thms)
  from h a e b show ?thesis by (simp only: simp_thms)
qed

text \<open>
  C4. The backends attempted, in the order of their log records, are an initial segment of
  the order: primary if set and a key of the mapping, fallback if set and a key of the
  mapping, then the keys of the mapping in iteration order without the primary and the
  fallback. When the call raises they are the whole of it, and every attempt before the
  last one made has failed.
\<close>

theorem fallback_attempt_order:
  "prefix (map entry_backend (fst (snd (recognize_with_fallback self audio w)))) (attempt_order self)
   \<and> (isl (fst (recognize_with_fallback self audio w)) \<longrightarrow>
        map entry_backend (fst (snd (recognize_with_fallback self audio w))) = attempt_order self)
   \<and> (\<forall>x \<in> set (butlast (fst (snd (recognize_with_fallback self audio w)))). is_Failed x)"
proof -
  obtain r lg w' where fs: "first_success (candidates self) audio w = (r, lg, w')"
    by (cases "first_success (candidates self) audio w")
  have rwf: "recognize_with_fallback self audio w = finish (r, lg, w')"
    by (simp add: recognize_with_fallback_candidates fs)
  have iff: "isl (fst (finish (r, lg, w'))) \<longleftrightarrow> r = None"
    by (cases r) (simp_all add: finish_def)
  have lgs: "fst (snd (finish (r, lg, w'))) = lg"
    by (cases r) (simp_all add: finish_def)
  from first_success_log_prefix[OF fs] first_success_butlast_failed[OF fs]
  show ?thesis
    unfolding rwf iff lgs by (simp add: candidates_backends)
qed

theorem fallback_attempt_order_witness:
  "isl (fst (recognize_with_fallback all_fail_engine () 0))
   \<and> attempt_order all_fail_engine = [GOOGLE, ELEVENLABS]
   \<and> map entry_backend (fst (snd (recognize_with_fallback all_fail_engine () 0)))
       = attempt_order all_fail_engine
   \<and> Failed Fallback GOOGLE (Exn Exception ''offline'' None)
       \<in> set (butlast (fst (snd (recognize_with_fallback all_fail_engine () 0))))
   \<and> is_Failed (Failed Fallback GOOGLE (Exn Exception ''offline'' None))"
proof -
  have h: "isl (fst (recognize_with_fallback all_fail_engine () 0))"
    by (simp add: all_fail_run)
  have o: "attempt_order all_fail_engine = [GOOGLE, ELEVENLABS]"
    by (simp add: attempt_order_def all_fail_engine_def)
  have m: "Failed Fallback GOOGLE (Exn Exception ''offline'' None)
       \<in> set (butlast (fst (snd (recognize_with_fallback all_fail_engine () 0))))"
    by (simp add: all_fail_run)
  have a: "map entry_backend (fst (snd (recognize_with_fallback all_fail_engine () 0)))
       = attempt_order all_fail_engine"
    using fallback_attempt_order[of all_fail_engine "()" 0] h
    by (elim conjE) (simp only: simp_thms)
  have f: "is_Failed (Failed Fallback GOOGLE (Exn Exception ''offline'' None))"
    using fallback_attempt_order[of all_fail_engine "()" 0] m
    by (elim conjE) (rule bspec)
  from h o a m f show ?thesis by (simp only: simp_thms)
qed

section \<open>Properties of the tools\<close>

text \<open>
  C5, as stated, fails: when listing the microphones raises, \<^verbatim>\<open>list_audio_devices\<close> returns
  an error message with an empty list and a zero count, and no \<^verbatim>\<open>success\<close> entry.
\<close>

theorem list_audio_devices_error_has_no_success:
  "fst (list_audio_devices (demo_env ''Google'' False) (startup 0))
     = Inr [(''error'', JStr ''Failed to list audio devices: No Default Input Device Available''),
            (''devices'', JList []),
            (''total_count'', JInt 0)]
   \<and> map_of [(''error'', JStr ''Failed to list audio devices: No Default Input Device Available''),
              (''devices'', JList []),
              (''total_count'', JInt 0)] ''success'' \<noteq> Some (JBool False)"
  by (simp add: list_audio_devices_def list_audio_devices_body_def get_speech_engine_def
      startup_def demo_init_Google demo_env_simps list_available_microphones_def)

text \<open>
  C5, amended. On a server that imported its speech components (for \<^verbatim>\<open>transcribe_once\<close>;
  for the other five tools always), a call returns a payload to the RPC layer and never an
  exception. The payload is the one the \<^verbatim>\<open>try\<close> body built if the body returned; the
  body of \<^verbatim>\<open>ping\<close> always returns, with the echo. If the body raised, the payload is:
  for \<^verbatim>\<open>test_microphone\<close>, \<^verbatim>\<open>success\<close> false, the prefixed message and the index
  "unknown"; for \<^verbatim>\<open>transcribe_once\<close>, \<^verbatim>\<open>success\<close> false, a message and the empty text,
  with \<^verbatim>\<open>timeout\<close> true when the exception is a \<^verbatim>\<open>WaitTimeoutError\<close>; for
  \<^verbatim>\<open>calibrate_audio\<close>, \<^verbatim>\<open>success\<close> false and the prefixed message; for
  \<^verbatim>\<open>list_audio_devices\<close> and \<^verbatim>\<open>get_engine_status\<close>, the prefixed message, an empty list
  and a zero count, and no \<^verbatim>\<open>success\<close> entry. An exception while probing the microphone
  is caught one level below, by \<^verbatim>\<open>MultiEngine.test_microphone\<close>, with \<^verbatim>\<open>success\<close> false and
  the message.
\<close>

theorem tools_return_payloads:
  assumes "SPEECH_COMPONENTS_AVAILABLE env \<or> \<not> is_transcribe req"
  shows "(\<exists>p. fst (call_tool env req st) = Inr p
      \<and> (\<forall>q. fst (tool_body env req st) = Inr q \<longrightarrow> p = q)
      \<and> (\<forall>ex. fst (tool_body env req st) = Inl ex \<longrightarrow>
            (\<exists>msg. map_of p ''error'' = Some (JStr msg))
            \<and> map_of p ''success''
                = (if req = ListAudioDevices \<or> req = GetEngineStatus then None
                   else Some (JBool False))
            \<and> p = (case req of
                     Ping x \<Rightarrow>
                       [(''ok'', JBool True), (''echo'', x),
                        (''server'', JStr ''Claude Voice Commands'')]
                   | TestMicrophone d \<Rightarrow>
                       [(''success'', JBool False),
                        (''error'', JStr (''Microphone test failed: '' @ message ex)),
                        (''microphone_index'', JStr ''unknown'')]
                   | TranscribeOnce d b \<Rightarrow>
                       (if isinstance (exn_class ex) WaitTimeoutError then
                          [(''success'', JBool False),
                           (''error'', JStr ''No speech detected within timeout period''),
                           (''text'', JStr ''''),
                           (''timeout'', JBool True)]
                        else
                          [(''success'', JBool False),
                           (''error'', JStr (''Transcription failed: '' @ message ex)),
                           (''text'', JStr '''')])
                   | CalibrateAudio d \<Rightarrow>
                       [(''success'', JBool False),
                        (''error'', JStr (''Calibration failed: '' @ message ex))]
                   | ListAudioDevices \<Rightarrow>
                       [(''error'', JStr (''Failed to list audio devices: '' @ message ex)),
                        (''devices'', JList []),
                        (''total_count'', JInt 0)]
                   | GetEngineStatus \<Rightarrow>
                       [(''error'', JStr (''Failed to get engine status: '' @ message ex)),
                        (''available_engines'', JList []),
                        (''total_engines'', JInt 0)])))
    \<and> (\<forall>x. req = Ping x \<longrightarrow>
          fst (tool_body env req st)
            = Inr [(''ok'', JBool True), (''echo'', x), (''server'', JStr ''Claude Voice Commands'')])
    \<and> (\<forall>ex w'. probe_microphone env duration w = (Inl ex, w') \<longrightarrow>
          MultiEngine_test_microphone env duration w
            = ([(''success'', JBool False), (''error'', JStr (message ex)),
                (''microphone_index'', JStr ''unknown'')], w'))"
proof (intro conjI)
  show "\<forall>ex w'. probe_microphone env duration w = (Inl ex, w') \<longrightarrow>
          MultiEngine_test_microphone env duration w
            = ([(''success'', JBool False), (''error'', JStr (message ex)),
                (''microphone_index'', JStr ''unknown'')], w')"
    by (simp add: MultiEngine_test_microphone_def)
next
  show "\<forall>x. req = Ping x \<longrightarrow>
          fst (tool_body env req st)
            = Inr [(''ok'', JBool True), (''echo'', x), (''server'', JStr ''Claude Voice Commands'')]"
    by (simp add: ping_def)
next
  show "\<exists>p. fst (call_tool env req st) = Inr p
      \<and> (\<forall>q. fst (tool_body env req st) = Inr q \<longrightarrow> p = q)
      \<and> (\<forall>ex. fst (tool_body env req st) = Inl ex \<longrightarrow>
            (\<exists>msg. map_of p ''error'' = Some (JStr msg))
            \<and> map_of p ''success''
                = (if req = ListAudioDevices \<or> req = GetEngineStatus then None
                   else Some (JBool False))
            \<and> p = (case req of
                     Ping x \<Rightarrow>
                       [(''ok'', JBool True), (''echo'', x),
                        (''server'', JStr ''Claude Voice Commands'')]
                   | TestMicrophone d \<Rightarrow>
                       [(''success'', JBool False),
                        (''error'', JStr (''Microphone test failed: '' @ message ex)),
                        (''microphone_index'', JStr ''unknown'')]
                   | TranscribeOnce d b \<Rightarrow>
                       (if isinstance (exn_class ex) WaitTimeoutError then
                          [(''success'', JBool False),
                           (''error'', JStr ''No speech detected within timeout period''),
                           (''text'', JStr ''''),
                           (''timeout'', JBool True)]
                        else
                          [(''success'', JBool False),
                           (''error'', JStr (''Transcription failed: '' @ message ex)),
                           (''text'', JStr '''')])
                   | CalibrateAudio d \<Rightarrow>
                       [(''success'', JBool False),
                        (''error'', JStr (''Calibration failed: '' @ message ex))]
                   | ListAudioDevices \<Rightarrow>
                       [(''error'', JStr (''Failed to list audio devices: '' @ message ex)),
                        (''devices'', JList []),
                        (''total_count'', JInt 0)]
                   | GetEngineStatus \<Rightarrow>
                       [(''error'', JStr (''Failed to get engine status: '' @ message ex)),
                        (''available_engines'', JList []),
                        (''total_engines'', JInt 0)]))"
  proof (cases req)
    case (Ping p)
    then show ?thesis by (simp add: ping_def)
  next
    case (TestMicrophone d)
    obtain r st' where b: "test_microphone_body env d st = (r, st')"
      by (cases "test_microphone_body env d st")
    show ?thesis
      by (cases r) (simp_all add: TestMicrophone test_microphone_def b)
  next
    case (TranscribeOnce d backend_name)
    with assms have sr: "sr_unbound env x = None" for x
      by (simp add: sr_unbound_def)
    obtain r st' where b: "transcribe_once_body env d backend_name st = (r, st')"
      by (cases "transcribe_once_body env d backend_name st")
    show ?thesis
      by (cases r) (simp_all add: TranscribeOnce transcribe_once_def b sr)
  next
    case (CalibrateAudio d)
    obtain r st' where b: "calibrate_audio_body env d st = (r, st')"
      by (cases "calibrate_audio_body env d st")
    show ?thesis
      by (cases r) (simp_all add: CalibrateAudio calibrate_audio_def b)
  next
    case ListAudioDevices
    obtain r st' where b: "list_audio_devices_body env st = (r, st')"
      by (cases "list_audio_devices_body env st")
    show ?thesis
      by (cases r) (simp_all add: ListAudioDevices list_audio_devices_def b)
  next
    case GetEngineStatus
    obtain r st' where b: "get_engine_status_body env st = (r, st')"
      by (cases "get_engine_status_body env st")
    show ?thesis
      by (cases r) (simp_all add: GetEngineStatus get_engine_status_def b)
  qed
qed

theorem tools_return_payloads_witness:
  "SPEECH_COMPONENTS_AVAILABLE (demo_env ''Google'' False)
   \<and> fst (tool_body (demo_env ''Google'' False) (TranscribeOnce 5 None) (startup 0))
       = Inl (Exn WaitTimeoutError ''listening timed out while waiting for phrase to start'' None)
   \<and> fst (call_tool (demo_env ''Google'' False) (TranscribeOnce 5 None) (startup 0))
       = Inr [(''success'', JBool False),
              (''error'', JStr ''No speech detected within timeout period''),
              (''text'', JStr ''''),
              (''timeout'', JBool True)]
   \<and> fst (tool_body (demo_env ''Google'' False) ListAudioDevices (startup 0))
       = Inl (Exn (Subclass ''OSError'' Exception) ''No Default Input Device Available'' None)
   \<and> fst (call_tool (demo_env ''Google'' False) ListAudioDevices (startup 0))
       = Inr [(''error'', JStr ''Failed to list audio devices: No Default Input Device Available''),
              (''devices'', JList []),
              (''total_count'', JInt 0)]
   \<and> probe_microphone (demo_env ''Google'' False) 2 0
       = (Inl (Exn WaitTimeoutError ''listening timed out while waiting for phrase to start'' None),
          1)
   \<and> MultiEngine_test_microphone (demo_env ''Google'' False) 2 0
       = ([(''success'', JBool False),
           (''error'', JStr ''listening timed out while waiting for phrase to start''),
           (''microphone_index'', JStr ''unknown'')], 1)
   \<and> fst (tool_body (demo_env ''Google'' False) (Ping JNull) (startup 0))
       = Inr [(''ok'', JBool True), (''echo'', JNull), (''server'', JStr ''Claude Voice Commands'')]
   \<and> fst (call_tool (demo_env ''Google'' False) (Ping JNull) (startup 0))
       = Inr [(''ok'', JBool True), (''echo'', JNull), (''server'', JStr ''Claude Voice Commands'')]"
proof -
  let ?env = "demo_env ''Google'' False"
  have a: "SPEECH_COMPONENTS_AVAILABLE ?env"
    by (simp add: demo_env_simps)
  have b: "fst (tool_body ?env (TranscribeOnce 5 None) (startup 0))
       = Inl (Exn WaitTimeoutError ''listening timed out while waiting for phrase to start'' None)"
    by (simp add: transcribe_once_body_def demo_get_engine sr_unbound_def demo_env_simps)
  have l: "fst (tool_body ?env ListAudioDevices (startup 0))
       = Inl (Exn (Subclass ''OSError'' Exception) ''No Default Input Device Available'' None)"
    by (simp add: list_audio_devices_body_def demo_get_engine list_available_microphones_def
        demo_env_simps)
  have c: "probe_microphone ?env 2 0
       = (Inl (Exn WaitTimeoutError ''listening timed out while waiting for phrase to start'' None),
          1)"
    by (simp add: demo_env_simps)
  have d: "fst (tool_body ?env (Ping JNull) (startup 0))
       = Inr [(''ok'', JBool True), (''echo'', JNull), (''server'', JStr ''Claude Voice Commands'')]"
    by (simp add: ping_def)
  from tools_return_payloads[of ?env "TranscribeOnce 5 None" "startup 0" 2 0] a b
  have e: "fst (call_tool ?env (TranscribeOnce 5 None) (startup 0))
       = Inr [(''success'', JBool False),
              (''error'', JStr ''No speech detected within timeout period''),
              (''text'', JStr ''''),
              (''timeout'', JBool True)]"
    by auto
  from tools_return_payloads[of ?env ListAudioDevices "startup 0" 2 0] l
  have f: "fst (call_tool ?env ListAudioDevices (startup 0))
       = Inr [(''error'', JStr ''Failed to list audio devices: No Default Input Device Available''),
              (''devices'', JList []),
              (''total_count'', JInt 0)]"
    by auto
  from tools_return_payloads[of ?env "TranscribeOnce 5 None" "startup 0" 2 0] a c
  have m: "MultiEngine_test_microphone ?env 2 0
       = ([(''success'', JBool False),
           (''error'', JStr ''listening timed out while waiting for phrase to start''),
           (''microphone_index'', JStr ''unknown'')], 1)"
    by simp
  from tools_return_payloads[of ?env "Ping JNull" "startup 0" 2 0] d
  have p: "fst (call_tool ?env (Ping JNull) (startup 0))
       = Inr [(''ok'', JBool True), (''echo'', JNull), (''server'', JStr ''Claude Voice Commands'')]"
    by auto
  from a b c d e f l m p show ?thesis
    by simp
qed

text \<open>
  C6. When \<^verbatim>\<open>get_speech_engine\<close> returns the engine, \<^verbatim>\<open>get_engine_status\<close> returns a
  payload whose \<^verbatim>\<open>available_engines\<close> are the values of the keys of the mapping, in its
  order, so that a backend's value is listed exactly when the backend is a key; and whose
  \<^verbatim>\<open>primary_engine\<close> and \<^verbatim>\<open>fallback_engine\<close> are the values of the configured backends,
  null when unset.
\<close>

theorem engine_status_lists_mapping:
  assumes "get_speech_engine env st = (Inr m, st1)"
  shows "\<exists>p. fst (get_engine_status env st) = Inr p
    \<and> map_of p ''available_engines''
        = Some (JList (map (\<lambda>b. JStr (backend_value b)) (map fst (engines m))))
    \<and> (\<forall>b. JStr (backend_value b) \<in> set (map (\<lambda>b. JStr (backend_value b)) (map fst (engines m)))
          \<longleftrightarrow> b \<in> fst ` set (engines m))
    \<and> map_of p ''primary_engine''
        = Some (case primary m of None \<Rightarrow> JNull | Some b \<Rightarrow> JStr (backend_value b))
    \<and> map_of p ''fallback_engine''
        = Some (case fallback m of None \<Rightarrow> JNull | Some b \<Rightarrow> JStr (backend_value b))"
proof -
  have l: "map (\<lambda>(b, e). JStr (backend_value b)) (engines m)
      = map (\<lambda>b. JStr (backend_value b)) (map fst (engines m))"
    by (simp add: case_prod_beta)
  have v: "value_or_null x = (case x of None \<Rightarrow> JNull | Some b \<Rightarrow> JStr (backend_value b))" for x
    by (cases x) simp_all
  have s: "JStr (backend_value b) \<in> set (map (\<lambda>b. JStr (backend_value b)) (map fst (engines m)))
          \<longleftrightarrow> b \<in> fst ` set (engines m)" for b
    by (auto simp add: backend_value_inj image_iff)
  have p: "fst (get_engine_status env st)
      = Inr [(''available_engines'',
                JList (map (\<lambda>b. JStr (backend_value b)) (map fst (engines m)))),
             (''primary_engine'', value_or_null (primary m)),
             (''fallback_engine'', value_or_null (fallback m)),
             (''elevenlabs_api_configured'',
                JBool (key_configured (getenv env ''ELEVENLABS_API_KEY''))),
             (''engine_details'', JObj (engine_details (engines m) [])),
             (''total_engines'', JInt (int (length (engines m))))]"
    by (simp add: get_engine_status_def get_engine_status_body_def assms l)
  show ?thesis
    unfolding p using s by (simp add: v)
qed

theorem engine_status_lists_mapping_witness:
  "get_speech_engine (demo_env ''Google'' False) (startup 0)
     = (Inr \<lparr>engines = demo_engines ''Google'' False, primary = Some GOOGLE, fallback = None\<rparr>,
        \<lparr>speech_engine =
           Some \<lparr>engines = demo_engines ''Google'' False, primary = Some GOOGLE, fallback = None\<rparr>,
         world = 0, calls = []\<rparr>)
   \<and> map_of (projr (fst (get_engine_status (demo_env ''Google'' False) (startup 0))))
        ''available_engines'' = Some (JList [JStr ''elevenlabs'', JStr ''google''])
   \<and> map_of (projr (fst (get_engine_status (demo_env ''Google'' False) (startup 0))))
        ''primary_engine'' = Some (JStr ''google'')
   \<and> map_of (projr (fst (get_engine_status (demo_env ''Google'' False) (startup 0))))
        ''fallback_engine'' = Some JNull"
proof -
  note h = demo_get_engine[of False]
  from engine_status_lists_mapping[OF h] obtain p where
    p: "fst (get_engine_status (demo_env ''Google'' False) (startup 0)) = Inr p"
    and a: "map_of p ''available_engines''
        = Some (JList (map (\<lambda>b. JStr (backend_value b)) (map fst (demo_engines ''Google'' False))))"
    and b: "map_of p ''primary_engine'' = Some (JStr (backend_value GOOGLE))"
    and c: "map_of p ''fallback_engine'' = Some JNull"
    by auto
  from h p a b c show ?thesis
    by (simp add: demo_engines_def)
qed

text \<open>
  C7. Every engine in the mapping that \<^verbatim>\<open>MultiEngine.__init__\<close> builds is available, and
  after any sequence of tool calls from startup every engine in the mapping of the
  server's \<^verbatim>\<open>MultiEngine\<close>, if it has been constructed, is available.
\<close>

theorem mapping_holds_available_engines:
  "(\<forall>m. MultiEngine_init env = Inr m \<longrightarrow> (\<forall>(b, e) \<in> set (engines m). available e))
   \<and> (\<forall>m. speech_engine (serve env reqs (startup w)) = Some m \<longrightarrow>
          (\<forall>(b, e) \<in> set (engines m). available e))"
proof (intro conjI allI impI)
  fix m :: "('a, 'b) MultiEngine"
  assume "MultiEngine_init env = Inr m"
  from MultiEngine_init_engines_ok[OF this] show "\<forall>(b, e) \<in> set (engines m). available e"
    by (auto simp add: engines_ok_def)
next
  fix m
  assume m: "speech_engine (serve env reqs (startup w)) = Some m"
  have "state_ok (serve env reqs (startup w))"
    by (rule serve_ok) (rule startup_ok)
  with m show "\<forall>(b, e) \<in> set (engines m). available e"
    by (auto simp add: state_ok_def engines_ok_def)
qed

theorem mapping_holds_available_engines_witness:
  "MultiEngine_init (demo_env ''Google'' False)
     = Inr \<lparr>engines = demo_engines ''Google'' False, primary = Some GOOGLE, fallback = None\<rparr>
   \<and> map (\<lambda>(b, e). (b, available e)) (demo_engines ''Google'' False)
       = [(ELEVENLABS, True), (GOOGLE, True)]
   \<and> map_option (\<lambda>m. map (\<lambda>(b, e). (b, available e, energy_threshold e)) (engines m))
        (speech_engine (serve (demo_env ''Google'' False) [CalibrateAudio 2] (startup 0)))
       = Some [(ELEVENLABS, True, 350), (GOOGLE, True, 4000)]"
proof -
  note i = demo_init_Google[of False]
  have s: "map_option (\<lambda>m. map (\<lambda>(b, e). (b, available e, energy_threshold e)) (engines m))
        (speech_engine (serve (demo_env ''Google'' False) [CalibrateAudio 2] (startup 0)))
       = Some [(ELEVENLABS, True, 350), (GOOGLE, True, 4000)]"
    by (simp add: calibrate_audio_def calibrate_audio_body_def demo_get_engine
        calibrate_microphone_def demo_engines_def demo_env_simps sr_unbound_def)
  from mapping_holds_available_engines[of "demo_env ''Google'' False" "[CalibrateAudio 2]" 0] i
  have "\<forall>(b, e) \<in> set (demo_engines ''Google'' False). available e"
    by simp
  then have "map (\<lambda>(b, e). (b, available e)) (demo_engines ''Google'' False)
       = [(ELEVENLABS, True), (GOOGLE, True)]"
    by (simp add: demo_engines_def)
  with i s show ?thesis by simp
qed

text \<open>
  C8. When the engine is there, the audio library is imported (without it no capture
  takes place) and the capture raises \<^verbatim>\<open>WaitTimeoutError\<close>, \<^verbatim>\<open>transcribe_once\<close> returns
  \<^verbatim>\<open>success\<close> false, the "No speech detected" message, the empty text and
  \<^verbatim>\<open>timeout\<close> true, and no \<^verbatim>\<open>recognize\<close> has been called.
\<close>

theorem capture_timeout_payload:
  assumes "get_speech_engine env st = (Inr engine, st1)"
    and "SPEECH_COMPONENTS_AVAILABLE env"
    and "capture env duration (world st1) = (Inl ex, w1)"
    and "exn_class ex = WaitTimeoutError"
  shows "transcribe_once env duration backend_name st
      = (Inr [(''success'', JBool False),
              (''error'', JStr ''No speech detected within timeout period''),
              (''text'', JStr ''''),
              (''timeout'', JBool True)], st1\<lparr>world := w1\<rparr>)
    \<and> calls (snd (transcribe_once env duration backend_name st)) = calls st"
  using assms get_speech_engine_calls[OF assms(1)]
  by (simp add: transcribe_once_def transcribe_once_body_def sr_unbound_def)

theorem capture_timeout_payload_witness:
  "get_speech_engine (demo_env ''Google'' False) (startup 0)
     = (Inr \<lparr>engines = demo_engines ''Google'' False, primary = Some GOOGLE, fallback = None\<rparr>,
        \<lparr>speech_engine =
           Some \<lparr>engines = demo_engines ''Google'' False, primary = Some GOOGLE, fallback = None\<rparr>,
         world = 0, calls = []\<rparr>)
   \<and> SPEECH_COMPONENTS_AVAILABLE (demo_env ''Google'' False)
   \<and> capture (demo_env ''Google'' False) 5 0
       = (Inl (Exn WaitTimeoutError ''listening timed out while waiting for phrase to start'' None),
          1)
   \<and> fst (transcribe_once (demo_env ''Google'' False) 5 None (startup 0))
       = Inr [(''success'', JBool False),
              (''error'', JStr ''No speech detected within timeout period''),
              (''text'', JStr ''''),
              (''timeout'', JBool True)]
   \<and> calls (snd (transcribe_once (demo_env ''Google'' False) 5 None (startup 0))) = []"
proof -
  note h = demo_get_engine[of False]
  have f: "SPEECH_COMPONENTS_AVAILABLE (demo_env ''Google'' False)"
    by (simp add: demo_env_simps)
  have c: "capture (demo_env ''Google'' False) 5
      (world \<lparr>speech_engine =
           Some \<lparr>engines = demo_engines ''Google'' False, primary = Some GOOGLE, fallback = None\<rparr>,
         world = 0, calls = []\<rparr>)
       = (Inl (Exn WaitTimeoutError ''listening timed out while waiting for phrase to start'' None),
          1)"
    by (simp add: demo_env_simps)
  have k: "exn_class (Exn WaitTimeoutError ''listening timed out while waiting for phrase to start'' None)
      = WaitTimeoutError"
    by simp
  from capture_timeout_payload[OF h f c k, of None] h f c show ?thesis
    by (simp add: startup_def)
qed

text \<open>
  C9. The keys of the mapping that \<^verbatim>\<open>MultiEngine.__init__\<close> builds are among ELEVENLABS,
  GOOGLE and WHISPER; after any sequence of tool calls from startup OPENAI_REALTIME is not
  a key of the server's mapping; and a \<^verbatim>\<open>transcribe_once\<close> request that names the fourth
  backend, in any spelling of upper and lower case, calls no \<^verbatim>\<open>recognize\<close> and returns no
  payload other than one with \<^verbatim>\<open>success\<close> false.
\<close>

theorem openai_backend_never_served:
  "(\<forall>m. MultiEngine_init env = Inr m \<longrightarrow> fst ` set (engines m) \<subseteq> {ELEVENLABS, GOOGLE, WHISPER})
   \<and> (\<forall>m. speech_engine (serve env reqs (startup w)) = Some m \<longrightarrow>
          OPENAI_REALTIME \<notin> fst ` set (engines m))
   \<and> (lower name = ''openai'' \<longrightarrow>
        calls (snd (transcribe_once env duration (Some name) (serve env reqs (startup w))))
          = calls (serve env reqs (startup w))
        \<and> (\<forall>p. fst (transcribe_once env duration (Some name) (serve env reqs (startup w))) = Inr p
              \<longrightarrow> map_of p ''success'' = Some (JBool False)))"
proof -
  have ok: "state_ok (serve env reqs (startup w))"
    by (rule serve_ok) (rule startup_ok)
  have a: "fst ` set (engines m) \<subseteq> {ELEVENLABS, GOOGLE, WHISPER}"
    if "MultiEngine_init env = Inr m" for m :: "('a, 'b) MultiEngine"
    using MultiEngine_init_engines_ok[OF that] by (auto simp add: engines_ok_def)
  have b: "OPENAI_REALTIME \<notin> fst ` set (engines m)"
    if "speech_engine (serve env reqs (startup w)) = Some m" for m
    using ok that by (auto simp add: state_ok_def engines_ok_def)
  from a b transcribe_once_openai[OF ok, of name env duration] show ?thesis
    by blast
qed

theorem openai_backend_never_served_witness:
  "lower ''OpenAI'' = ''openai''
   \<and> MultiEngine_init (demo_env ''Google'' True)
     = Inr \<lparr>engines = demo_engines ''Google'' True, primary = Some GOOGLE, fallback = None\<rparr>
   \<and> map fst (demo_engines ''Google'' True) = [ELEVENLABS, GOOGLE]
   \<and> map_option (\<lambda>m. map fst (engines m))
        (speech_engine (serve (demo_env ''Google'' True) [GetEngineStatus] (startup 0)))
       = Some [ELEVENLABS, GOOGLE]
   \<and> fst (transcribe_once (demo_env ''Google'' True) 5 (Some ''OpenAI'')
            (serve (demo_env ''Google'' True) [GetEngineStatus] (startup 0)))
       = Inr [(''success'', JBool False),
              (''error'', JStr ''Transcription failed: Backend 'OpenAI' not available''),
              (''text'', JStr '''')]
   \<and> calls (snd (transcribe_once (demo_env ''Google'' True) 5 (Some ''OpenAI'')
            (serve (demo_env ''Google'' True) [GetEngineStatus] (startup 0)))) = []"
proof -
  note i = demo_init_Google[of True]
  have k: "map fst (demo_engines ''Google'' True) = [ELEVENLABS, GOOGLE]"
    by (simp add: demo_engines_def)
  have s: "serve (demo_env ''Google'' True) [GetEngineStatus] (startup 0)
      = \<lparr>speech_engine =
           Some \<lparr>engines = demo_engines ''Google'' True, primary = Some GOOGLE, fallback = None\<rparr>,
         world = 0, calls = []\<rparr>"
    by (simp add: get_engine_status_def get_engine_status_body_def demo_get_engine)
  have t: "fst (transcribe_once (demo_env ''Google'' True) 5 (Some ''OpenAI'')
            \<lparr>speech_engine =
               Some \<lparr>engines = demo_engines ''Google'' True, primary = Some GOOGLE, fallback = None\<rparr>,
             world = 0, calls = []\<rparr>)
       = Inr [(''success'', JBool False),
              (''error'', JStr ''Transcription failed: Backend 'OpenAI' not available''),
              (''text'', JStr '''')]"
    by (simp add: transcribe_once_def transcribe_once_body_def get_speech_engine_def
        sr_unbound_def demo_env_simps recognize_selected_def lower_OpenAI openai_lookup
        demo_engines_def apostrophe_def)
  from openai_backend_never_served[of "demo_env ''Google'' True" "[GetEngineStatus]" 0 "''OpenAI''" 5]
    lower_OpenAI
  have c: "calls (snd (transcribe_once (demo_env ''Google'' True) 5 (Some ''OpenAI'')
            (serve (demo_env ''Google'' True) [GetEngineStatus] (startup 0))))
       = calls (serve (demo_env ''Google'' True) [GetEngineStatus] (startup 0))"
    by (elim conjE) (simp only: simp_thms)
  from i k s t c lower_OpenAI show ?thesis
    by simp
qed

text \<open>
  C10, as stated, fails: the setting \<^verbatim>\<open>Google\<close> is not the value of any member of the
  enumeration, and the primary field is GOOGLE, not null; the setting is lower-cased
  before it is looked up.
\<close>

theorem capitalised_setting_selects_backend:
  "getenv (demo_env ''Google'' False) ''VOICE_BACKEND'' = Some ''Google''
   \<and> ''Google'' \<notin> set (map backend_value members)
   \<and> (case MultiEngine_init (demo_env ''Google'' False) of Inl ex \<Rightarrow> None | Inr self \<Rightarrow> primary self)
       = Some GOOGLE"
  by (simp add: demo_init_Google demo_env_simps members_def)

text \<open>
  C10, amended. Whatever values the two settings are given, \<^verbatim>\<open>MultiEngine.__init__\<close>
  raises exactly when registering the engines raises. When it returns, a primary (fallback) setting
  whose lower-cased text is not the value of a member leaves the primary (fallback) field
  null, and \<^verbatim>\<open>recognize_with_fallback\<close> then makes no attempt in that phase.
\<close>

theorem unknown_backend_setting_is_unset:
  "(isl (MultiEngine_init
           (env\<lparr>getenv := (getenv env)(''VOICE_BACKEND'' := v1, ''VOICE_FALLBACK'' := v2)\<rparr>))
      \<longleftrightarrow> isl (register_engines env))
   \<and> (\<forall>self. MultiEngine_init env = Inr self \<longrightarrow>
        (lower (getenv_default env ''VOICE_BACKEND'' ''elevenlabs'') \<notin> set (map backend_value members)
           \<longrightarrow> primary self = None \<and> try_primary self audio w = (None, [], w)
             \<and> Primary \<notin> entry_phase ` set (fst (snd (recognize_with_fallback self audio w))))
      \<and> (lower (getenv_default env ''VOICE_FALLBACK'' ''google'') \<notin> set (map backend_value members)
           \<longrightarrow> fallback self = None \<and> try_fallback self audio w = (None, [], w)
             \<and> Fallback \<notin> entry_phase ` set (fst (snd (recognize_with_fallback self audio w)))))"
proof (intro conjI allI impI)
  show "isl (MultiEngine_init
           (env\<lparr>getenv := (getenv env)(''VOICE_BACKEND'' := v1, ''VOICE_FALLBACK'' := v2)\<rparr>))
      \<longleftrightarrow> isl (register_engines env)"
    by (simp only: MultiEngine_init_isl register_engines_settings)
next
  fix self :: "('a, 'b) MultiEngine"
  assume i: "MultiEngine_init env = Inr self"
    and n: "lower (getenv_default env ''VOICE_BACKEND'' ''elevenlabs'') \<notin> set (map backend_value members)"
  from backend_or_none_returns[of "lower (getenv_default env ''VOICE_BACKEND'' ''elevenlabs'')"] n
  have "backend_or_none (lower (getenv_default env ''VOICE_BACKEND'' ''elevenlabs'')) = Inr None"
    by auto
  with i MultiEngine_init_cases[of env] show p: "primary self = None"
    by auto
  then show "try_primary self audio w = (None, [], w)"
    by (simp add: try_primary_def)
  from p log_phases[of self audio w]
  show "Primary \<notin> entry_phase ` set (fst (snd (recognize_with_fallback self audio w)))"
    by (auto split: option.splits)
next
  fix self :: "('a, 'b) MultiEngine"
  assume i: "MultiEngine_init env = Inr self"
    and n: "lower (getenv_default env ''VOICE_FALLBACK'' ''google'') \<notin> set (map backend_value members)"
  from backend_or_none_returns[of "lower (getenv_default env ''VOICE_FALLBACK'' ''google'')"] n
  have "backend_or_none (lower (getenv_default env ''VOICE_FALLBACK'' ''google'')) = Inr None"
    by auto
  with i MultiEngine_init_cases[of env] show p: "fallback self = None"
    by auto
  then show "try_fallback self audio w = (None, [], w)"
    by (simp add: try_fallback_def)
  from p log_phases[of self audio w]
  show "Fallback \<notin> entry_phase ` set (fst (snd (recognize_with_fallback self audio w)))"
    by (auto split: option.splits)
qed

theorem unknown_backend_setting_is_unset_witness:
  "\<not> isl (register_engines (demo_env ''siri'' False))
   \<and> \<not> isl (MultiEngine_init
          ((demo_env ''siri'' False)
             \<lparr>getenv := (getenv (demo_env ''siri'' False))
                (''VOICE_BACKEND'' := Some ''cortana'', ''VOICE_FALLBACK'' := None)\<rparr>))
   \<and> MultiEngine_init (demo_env ''siri'' False)
       = Inr \<lparr>engines = demo_engines ''siri'' False, primary = None, fallback = None\<rparr>
   \<and> lower (getenv_default (demo_env ''siri'' False) ''VOICE_BACKEND'' ''elevenlabs'')
       \<notin> set (map backend_value members)
   \<and> lower (getenv_default (demo_env ''siri'' False) ''VOICE_FALLBACK'' ''google'')
       \<notin> set (map backend_value members)
   \<and> try_primary \<lparr>engines = demo_engines ''siri'' False, primary = None, fallback = None\<rparr> () 0
       = (None, [], 0)
   \<and> try_fallback \<lparr>engines = demo_engines ''siri'' False, primary = None, fallback = None\<rparr> () 0
       = (None, [], 0)
   \<and> map entry_phase (fst (snd (recognize_with_fallback
        \<lparr>engines = demo_engines ''siri'' False, primary = None, fallback = None\<rparr> () 0)))
       = [Secondary]"
proof -
  note i = demo_init_siri[of False]
  have p: "lower (getenv_default (demo_env ''siri'' False) ''VOICE_BACKEND'' ''elevenlabs'')
       \<notin> set (map backend_value members)"
    by (simp add: getenv_default_def demo_env_simps lower_siri members_def)
  have f: "lower (getenv_default (demo_env ''siri'' False) ''VOICE_FALLBACK'' ''google'')
       \<notin> set (map backend_value members)"
    by (simp add: getenv_default_def demo_env_simps lower_azure members_def)
  have l: "map entry_phase (fst (snd (recognize_with_fallback
        \<lparr>engines = demo_engines ''siri'' False, primary = None, fallback = None\<rparr> () 0)))
       = [Secondary]"
    by (simp add: demo_run_siri)
  have r: "\<not> isl (register_engines (demo_env ''siri'' False))"
    by (simp add: demo_register)
  from unknown_backend_setting_is_unset[where env = "demo_env ''siri'' False" and audio = "()"
      and w = 0 and ?v1.0 = "Some ''cortana''" and ?v2.0 = None] i p f r
  have "\<not> isl (MultiEngine_init
          ((demo_env ''siri'' False)
             \<lparr>getenv := (getenv (demo_env ''siri'' False))
                (''VOICE_BACKEND'' := Some ''cortana'', ''VOICE_FALLBACK'' := None)\<rparr>))
    \<and> try_primary \<lparr>engines = demo_engines ''siri'' False, primary = None, fallback = None\<rparr> () 0
       = (None, [], 0)
    \<and> try_fallback \<lparr>engines = demo_engines ''siri'' False, primary = None, fallback = None\<rparr> () 0
       = (None, [], 0)"
    by simp
  with i p f l r show ?thesis by simp
qed

end
